theory Spec2Isabelle
  imports Main "HOL-Library.Word"
begin

section \<open>The fuzzer's main loop (Fuzzer/FuzzerLoop.cpp)\<close>

text \<open>
  A shallow embedding of the stateful routines of \<^verbatim>\<open>FuzzerLoop.cpp\<close>. The members of
  \<^verbatim>\<open>class Fuzzer\<close> and the globals of the file are the fields of one record that every
  routine takes and returns. The collaborators declared in other files (the coverage
  oracle \<^verbatim>\<open>TPC\<close>, the \<^verbatim>\<open>Corpus\<close>, the mutation dispatcher \<^verbatim>\<open>MD\<close>, the sanitizer
  interface \<^verbatim>\<open>EF\<close>, the clock, SHA-1 and Base64) are parameters: their state is one
  value of an arbitrary type \<open>'x\<close> and their operations are the fields of an environment
  record. \<^verbatim>\<open>_Exit\<close>, a failed \<^verbatim>\<open>assert\<close> and an access outside a buffer end a routine
  with \<open>Stopped\<close>. Sizes and counters of type \<^verbatim>\<open>size_t\<close> are natural numbers, with the
  wrap-around modulo \<open>2 ^ 64\<close> written out where the code subtracts them or adds to a
  length; the counters, which go up by one, are taken not to reach \<open>2 ^ 64\<close>.

  The process has one fuzzing thread (\<^verbatim>\<open>assert(InFuzzingThread())\<close> holds), and a target
  callback that is invoked returns: a target that crashes, hangs or is stopped by the
  malloc hook is outside these routines. What is written to the console and to files is
  kept in two lists of the state.
\<close>

subsection \<open>Data\<close>

type_synonym u8 = "8 word"
type_synonym uintptr_t = "64 word"

definition kMaxUnitSizeToPrint :: nat where
  "kMaxUnitSizeToPrint = 256"

definition kSizeT :: nat where
  "kSizeT = 2 ^ 64"

text \<open>What the process writes to its console: one event for each \<^verbatim>\<open>Printf\<close> (the format
  and its arguments) and one for each printing routine of another component.\<close>

datatype arg = ArgN nat | ArgS string

datatype out =
    Printf string "arg list"
  | PrintHexArray "u8 list"
  | PrintASCII "u8 list"
  | MD_PrintMutationSequence
  | TPC_PrintCoverage
  | TPC_DumpCoverage
  | TPC_PrintNewPCs
  | Corpus_PrintStats
  | sanitizer_print_stack_trace

datatype stop = Exit int | Assertion_failed | Undefined_behaviour

datatype ('a, 's) outcome = Stopped stop 's | Returned 'a 's

text \<open>The operations of the collaborators: numbers read, flags read, calls made for
  their effect, and calls that change the collaborator and answer yes or no.\<close>

datatype ext_get =
    TPC_GetTotalPCCoverage
  | Corpus_NumFeatureUpdates
  | Corpus_NumFeatures
  | Corpus_NumActiveUnits
  | Corpus_SizeInBytes
  | Corpus_MaxInputSize
  | execPerSec
  | GetPeakRSSMb
  | GetPid
  | secondsSinceProcessStartUp
  | system_clock_now

datatype ext_test =
    Corpus_empty
  | Corpus_HasUnit string
  | EF_sanitizer_print_stack_trace
  | EF_lsan
  | SMR_IsClient

datatype ext_do =
    TPC_ResetMaps
  | TPC_ResetCoverage
  | Corpus_AddFeature nat nat bool
  | Corpus_AddToCorpus "u8 list" nat bool "nat list"
  | MD_StartMutationSequence
  | MD_RecordSuccessfulMutationSequence
  | II_NumExecutedMutations_incr nat
  | II_NumSuccessfullMutations_incr nat
  | SMR_WriteByteArray "u8 list"
  | lsan_disable
  | lsan_enable

datatype ext_ask =
    TPC_NewOutputDiff_change "int list"
  | TPC_NewTraceDiff "int list"
  | Corpus_TryToReplace nat "u8 list" "nat list"
  | lsan_do_recoverable_leak_check

text \<open>What one run of a target callback gives back: its return value, the bytes of the
  heap copy it was handed as they are afterwards, and the numbers of \<^verbatim>\<open>malloc\<close> and
  \<^verbatim>\<open>free\<close> calls that the hooks counted meanwhile.\<close>

record cb_result =
  Res :: int
  DataCopy_after :: "u8 list"
  Mallocs_seen :: nat
  Frees_seen :: nat

record 'x env =
  get :: "ext_get \<Rightarrow> 'x \<Rightarrow> nat"
  test :: "ext_test \<Rightarrow> 'x \<Rightarrow> bool"
  effect :: "ext_do \<Rightarrow> 'x \<Rightarrow> 'x"
  ask :: "ext_ask \<Rightarrow> 'x \<Rightarrow> bool \<times> 'x"
  callback :: "nat \<Rightarrow> u8 list \<Rightarrow> 'x \<Rightarrow> cb_result \<times> 'x"
  TPC_UC_callbacks :: "nat list"
  TPC_PCs :: "'x \<Rightarrow> uintptr_t list"
  TPC_ModuleNum :: "'x \<Rightarrow> nat list"
  TPC_CollectFeatures :: "'x \<Rightarrow> nat list"
  Corpus_ChooseUnitToMutate :: "'x \<Rightarrow> (nat \<times> u8 list \<times> u8 list) \<times> 'x"
  MD_Mutate :: "u8 list \<Rightarrow> nat \<Rightarrow> nat \<Rightarrow> 'x \<Rightarrow> (u8 list \<times> nat) \<times> 'x"
  Rand_Rand :: "'x \<Rightarrow> nat \<times> 'x"
  ComputeSHA1 :: "u8 list \<Rightarrow> u8 list"
  Sha1ToString :: "u8 list \<Rightarrow> string"
  Hash :: "u8 list \<Rightarrow> string"
  Base64 :: "u8 list \<Rightarrow> string"
  IsASCII :: "u8 list \<Rightarrow> bool"
  DirPlusFile :: "string \<Rightarrow> string \<Rightarrow> string"
  DescribePC :: "uintptr_t \<Rightarrow> string"
  double_gt_times_1_1 :: "int \<Rightarrow> nat \<Rightarrow> bool"

record options =
  RssLimitMb :: int
  ErrorExitCode :: int
  SaveArtifacts :: bool
  ArtifactPrefix :: string
  ExactArtifactPath :: string
  DifferentialMode :: bool
  PrintCoverage :: bool
  DumpCoverage :: bool
  PrintCorpusStats :: bool
  PrintFinalStats_opt :: bool
  Verbosity :: int
  Shrink :: bool
  ReduceInputs :: bool
  ReportSlowUnits :: int
  ExitOnSrcPos :: string
  ExitOnItem :: string
  TraceMalloc :: int
  OnlyASCII :: bool
  OutputCorpus :: string
  PrintNEW :: bool
  DetectLeaks :: bool
  ExperimentalLenControl :: bool
  MutateDepth :: int
  MaxNumberOfRuns :: nat

record 'x fuzzer =
  Options :: options
  CB :: nat
  CurrentUnitData :: "u8 list option"
  CurrentUnitSize :: nat
  BaseSha1 :: "u8 list"
  MaxInputLen :: nat
  MaxMutationLen :: nat
  UnitHadOutputDiff :: bool
  CoverageHash :: "string \<rightharpoonup> bool"
  hashMap :: "u8 list \<rightharpoonup> bool"
  Duplicate :: nat
  NumberOfDuplicate :: nat
  NumberOfDiffUnitsAdded :: nat
  NumberofValidCases :: nat
  NumberOfNewUnitsAdded :: nat
  NumberOfLeakDetectionAttempts :: nat
  TotalNumberOfRuns :: nat
  TimeOfLongestUnitInSeconds :: nat
  HasMoreMallocsThanFrees :: bool
  RunningCB :: bool
  UnitStartTime :: nat
  UnitStopTime :: nat
  FeatureSetTmp :: "nat list"
  OutputDiffVec :: "int list"
  PCsSet :: "uintptr_t set"
  AllocTracer_Mallocs :: nat
  AllocTracer_Frees :: nat
  AllocTracer_TraceLevel :: int
  files :: "(string \<times> u8 list) list"
  stdout :: "out list"
  log_file :: "string list"
  ext :: 'x

subsection \<open>Console and files\<close>

text \<open>Consecutive prints of a routine are appended to the console together, in the order
  of the source; a print under a condition is a list that is empty when it fails.\<close>

definition prints :: "out list \<Rightarrow> 'x fuzzer \<Rightarrow> 'x fuzzer" where
  "prints es s = s\<lparr>stdout := stdout s @ es\<rparr>"

definition WriteToFile :: "u8 list \<Rightarrow> string \<Rightarrow> 'x fuzzer \<Rightarrow> 'x fuzzer" where
  "WriteToFile U Path s = s\<lparr>files := files s @ [(Path, U)]\<rparr>"

definition WriteUnitToFileWithPrefix ::
  "'x env \<Rightarrow> u8 list \<Rightarrow> string \<Rightarrow> 'x fuzzer \<Rightarrow> 'x fuzzer" where
  "WriteUnitToFileWithPrefix env U Prefix s =
     (if \<not> SaveArtifacts (Options s) then s
      else
        let Path = ArtifactPrefix (Options s) @ Prefix @ Hash env U;
            Path = (if ExactArtifactPath (Options s) \<noteq> []
                    then ExactArtifactPath (Options s) else Path)
        in prints
             ([Printf ''artifact_prefix='%s'; Test unit written to %s\<newline>''
                 [ArgS (ArtifactPrefix (Options s)), ArgS Path]]
              @ (if length U \<le> kMaxUnitSizeToPrint
                 then [Printf ''Base64: %s\<newline>'' [ArgS (Base64 env U)]] else []))
             (WriteToFile U Path s))"

definition DumpCurrentUnit :: "'x env \<Rightarrow> string \<Rightarrow> 'x fuzzer \<Rightarrow> 'x fuzzer" where
  "DumpCurrentUnit env Prefix s =
     (case CurrentUnitData s of
        None \<Rightarrow> s
      | Some buf \<Rightarrow>
          let UnitSize = CurrentUnitSize s
          in WriteUnitToFileWithPrefix env (take UnitSize buf) Prefix
               (prints
                  ([MD_PrintMutationSequence,
                    Printf ''; base unit: %s\<newline>'' [ArgS (Sha1ToString env (BaseSha1 s))]]
                   @ (if UnitSize \<le> kMaxUnitSizeToPrint
                      then [PrintHexArray (take UnitSize buf), PrintASCII (take UnitSize buf)]
                      else []))
                  s))"

definition PrintFinalStats :: "'x env \<Rightarrow> 'x fuzzer \<Rightarrow> 'x fuzzer" where
  "PrintFinalStats env s =
     prints
       ((if PrintCoverage (Options s) then [TPC_PrintCoverage] else [])
        @ (if DumpCoverage (Options s) then [TPC_DumpCoverage] else [])
        @ (if PrintCorpusStats (Options s) then [Corpus_PrintStats] else [])
        @ (if \<not> PrintFinalStats_opt (Options s) then []
           else
             [Printf ''stat::number_of_executed_units: %zd\<newline>''
                [ArgN (TotalNumberOfRuns s)],
              Printf ''stat::average_exec_per_sec:     %zd\<newline>''
                [ArgN (get env execPerSec (ext s))],
              Printf ''stat::new_units_added:          %zd\<newline>''
                [ArgN (NumberOfNewUnitsAdded s)]]
             @ (if DifferentialMode (Options s)
                then [Printf ''stat::number_of_diffs:          %zd\<newline>''
                        [ArgN (NumberOfDiffUnitsAdded s)]]
                else [])
             @ [Printf ''stat::slowest_unit_time_sec:    %zd\<newline>''
                  [ArgN (TimeOfLongestUnitInSeconds s)],
                Printf ''stat::peak_rss_mb:              %zd\<newline>''
                  [ArgN (get env GetPeakRSSMb (ext s))],
                Printf (''stat::number_of_duplicates:'' @ [CHR 0x09] @ ''%zd\<newline>'')
                  [ArgN (NumberOfDuplicate s)],
                Printf (''stat::coverage:'' @ [CHR 0x09] @ ''%zd\<newline>'')
                  [ArgN (get env TPC_GetTotalPCCoverage (ext s))],
                Printf (''stat::Duplicate:'' @ [CHR 0x09] @ ''%zd\<newline>'')
                  [ArgN (Duplicate s)]]))
       s"

subsection \<open>The malloc hook\<close>

text \<open>\<^verbatim>\<open>Fuzzer::HandleMalloc\<close>: \<^verbatim>\<open>Size >> 20\<close> is \<open>Size div 2 ^ 20\<close>, and the cast
  \<^verbatim>\<open>(size_t)Options.RssLimitMb\<close> of the signed option is its value modulo \<open>2 ^ 64\<close>.\<close>

definition HandleMalloc :: "'x env \<Rightarrow> nat \<Rightarrow> 'x fuzzer \<Rightarrow> (unit, 'x fuzzer) outcome" where
  "HandleMalloc env Size s =
     (if RssLimitMb (Options s) = 0
         \<or> Size div 2 ^ 20 < nat (RssLimitMb (Options s) mod int kSizeT)
      then Returned () s
      else
        Stopped (Exit (ErrorExitCode (Options s)))
          (PrintFinalStats env
             (prints [Printf ''SUMMARY: libFuzzer: out-of-memory\<newline>'' []]
                (DumpCurrentUnit env ''oom-''
                   (prints
                      ([Printf ''==%d== ERROR: libFuzzer: out-of-memory (malloc(%zd))\<newline>''
                          [ArgN (get env GetPid (ext s)), ArgN Size],
                        Printf ''   To change the out-of-memory limit use -rss_limit_mb=<N>\<newline>\<newline>''
                          []]
                       @ (if test env EF_sanitizer_print_stack_trace (ext s)
                          then [sanitizer_print_stack_trace] else []))
                      s)))))"

subsection \<open>Mutation length\<close>

text \<open>\<^verbatim>\<open>ComputeMutationLen\<close>, on \<^verbatim>\<open>size_t\<close>: the two additions wrap modulo \<open>2 ^ 64\<close>.
  The random number is drawn from the generator of the mutation dispatcher, which is part
  of the collaborators' state, and only when the two lengths differ.\<close>

definition ComputeMutationLen :: "'x env \<Rightarrow> nat \<Rightarrow> nat \<Rightarrow> 'x \<Rightarrow> (nat, 'x) outcome" where
  "ComputeMutationLen env MaxInputSize MaxMutationLen' x =
     (if \<not> MaxInputSize \<le> MaxMutationLen' then Stopped Assertion_failed x
      else if MaxInputSize = MaxMutationLen' then Returned MaxMutationLen' x
      else
        let Result = MaxInputSize;
            (R, x) = Rand_Rand env x;
            Result = (if R mod 2 ^ 7 = 0 then (Result + 1) mod kSizeT else Result);
            Result = (if R mod 2 ^ 15 = 0
                      then (Result + (10 + Result div 2) mod kSizeT) mod kSizeT
                      else Result)
        in Returned (min Result MaxMutationLen') x)"

text \<open>The choice of the cap at the start of \<^verbatim>\<open>Fuzzer::MutateAndTestOne\<close>.\<close>

definition CurrentMaxMutationLen :: "'x env \<Rightarrow> 'x fuzzer \<Rightarrow> (nat, 'x fuzzer) outcome" where
  "CurrentMaxMutationLen env s =
     (if ExperimentalLenControl (Options s)
      then (case ComputeMutationLen env (get env Corpus_MaxInputSize (ext s))
                   (MaxMutationLen s) (ext s) of
              Stopped e x \<Rightarrow> Stopped e (s\<lparr>ext := x\<rparr>)
            | Returned n x \<Rightarrow> Returned n (s\<lparr>ext := x\<rparr>))
      else Returned (MaxMutationLen s) s)"

subsection \<open>Divergences\<close>

text \<open>Decimal text of a number, as \<^verbatim>\<open>operator<<\<close> and \<^verbatim>\<open>%zd\<close> produce it.\<close>

fun dec :: "nat \<Rightarrow> string" where
  "dec n = (if n < 10 then [''0123456789'' ! n]
            else dec (n div 10) @ [''0123456789'' ! (n mod 10)])"

declare dec.simps [simp del]

definition string_of_int :: "int \<Rightarrow> string" where
  "string_of_int r = (if r < 0 then ''-'' @ dec (nat (- r)) else dec (nat r))"

text \<open>\<^verbatim>\<open>uint_to_uint8\<close>: the loop over \<open>i\<close>, storing eight bytes of \<open>source[i]\<close> at
  \<open>dest[8 * i]\<close> onwards. The cast to \<^verbatim>\<open>uint8_t\<close> keeps the low eight bits.\<close>

function uint_to_uint8 :: "uintptr_t list \<Rightarrow> u8 list \<Rightarrow> nat \<Rightarrow> nat \<Rightarrow> u8 list" where
  "uint_to_uint8 source dest sz i =
     (if i < sz
      then uint_to_uint8 source
             (dest[i * 8 := ucast (source ! i),
                   i * 8 + 1 := ucast (drop_bit 8 (source ! i)),
                   i * 8 + 2 := ucast (drop_bit 16 (source ! i)),
                   i * 8 + 3 := ucast (drop_bit 24 (source ! i)),
                   i * 8 + 4 := ucast (drop_bit 32 (source ! i)),
                   i * 8 + 5 := ucast (drop_bit 40 (source ! i)),
                   i * 8 + 6 := ucast (drop_bit 48 (source ! i)),
                   i * 8 + 7 := ucast (drop_bit 56 (source ! i))])
             sz (Suc i)
      else dest)"
  by pat_completeness auto
termination
  by (relation "measure (\<lambda>(source, dest, sz, i). sz - i)") auto

declare uint_to_uint8.simps [simp del]

text \<open>\<^verbatim>\<open>memcpy(dst + pt, src, n)\<close> where \<open>src\<close> holds the \<open>n\<close> bytes copied.\<close>

definition memcpy :: "u8 list \<Rightarrow> nat \<Rightarrow> u8 list \<Rightarrow> u8 list" where
  "memcpy dst pt src = take pt dst @ src @ drop (pt + length src) dst"

text \<open>The first loop of \<^verbatim>\<open>Fuzzer::DumpUnitIfDiff\<close>, over the return codes.\<close>

fun scan_OutputDiffVec :: "int list \<Rightarrow> bool \<times> bool \<times> string \<Rightarrow> bool \<times> bool \<times> string" where
  "scan_OutputDiffVec [] acc = acc"
| "scan_OutputDiffVec (r # rs) (has_zero, has_nonzero, SS) =
     scan_OutputDiffVec rs
       (if r = 0 then (True, has_nonzero, SS @ string_of_int r @ ''_'')
        else (has_zero, True, SS @ string_of_int r @ ''_''))"

text \<open>The second loop, over the callbacks \<open>j < sz\<close> (\<^verbatim>\<open>size\<close> in the source). It stops with \<open>None\<close> when it
  reads \<^verbatim>\<open>ModuleNum\<close> or \<^verbatim>\<open>OutputDiffVec\<close> past their ends, or copies from beyond
  \<^verbatim>\<open>Mid\<close> or to beyond \<^verbatim>\<open>Coverage\<close>. The \<^verbatim>\<open>int\<close> variables \<^verbatim>\<open>index\<close> and \<^verbatim>\<open>pt\<close> are
  natural numbers here: the tables are far shorter than \<open>2 ^ 31\<close> bytes.\<close>

function Coverage_loop ::
  "nat list \<Rightarrow> int list \<Rightarrow> u8 list \<Rightarrow> nat \<Rightarrow> nat \<Rightarrow> nat \<Rightarrow> u8 list \<Rightarrow> nat
     \<Rightarrow> (u8 list \<times> nat) option" where
  "Coverage_loop ModuleNum vec Mid sz j index Coverage CovSize =
     (if j < sz
      then
        if \<not> (j < length ModuleNum \<and> j < length vec) then None
        else
          let index = index + 8 * ModuleNum ! j;
              pt = CovSize
          in if vec ! j \<noteq> 0
             then
               if \<not> (j + 1 < length ModuleNum
                     \<and> index + 8 * ModuleNum ! (j + 1) \<le> length Mid
                     \<and> pt + 8 * ModuleNum ! (j + 1) \<le> length Coverage)
               then None
               else Coverage_loop ModuleNum vec Mid sz (j + 1) index
                      (memcpy Coverage pt (take (8 * ModuleNum ! (j + 1)) (drop index Mid)))
                      (CovSize + 8 * ModuleNum ! (j + 1))
             else Coverage_loop ModuleNum vec Mid sz (j + 1) index Coverage CovSize
      else Some (Coverage, CovSize))"
  by pat_completeness auto
termination
  by (relation "measure (\<lambda>(ModuleNum, vec, Mid, sz, j, index, Coverage, CovSize). sz - j)")
    auto

declare Coverage_loop.simps [simp del]

text \<open>The block of \<^verbatim>\<open>DumpUnitIfDiff\<close> that fills \<^verbatim>\<open>Coverage\<close>: the bytes that are hashed
  are \<^verbatim>\<open>Coverage[0 .. CovSize)\<close>.\<close>

definition DivergenceCoverage :: "'x env \<Rightarrow> 'x fuzzer \<Rightarrow> u8 list option" where
  "DivergenceCoverage env s =
     (let sz = length (TPC_UC_callbacks env);
          GetNumPCs = length (TPC_PCs env (ext s));
          Mid = uint_to_uint8 (TPC_PCs env (ext s)) (replicate (GetNumPCs * 8) 0) GetNumPCs 0;
          Coverage = replicate (GetNumPCs * 8) 0
      in case Coverage_loop (TPC_ModuleNum env (ext s)) (OutputDiffVec s) Mid sz 0 0 Coverage 0 of
           None \<Rightarrow> None
         | Some (Coverage, CovSize) \<Rightarrow> Some (take CovSize Coverage))"

definition DumpUnitIfDiff :: "'x env \<Rightarrow> u8 list \<Rightarrow> 'x fuzzer \<Rightarrow> (unit, 'x fuzzer) outcome" where
  "DumpUnitIfDiff env Data s =
     (let (has_zero, has_nonzero, SS) = scan_OutputDiffVec (OutputDiffVec s) (False, False, [])
      in if has_zero \<and> has_nonzero
         then
           (case DivergenceCoverage env s of
              None \<Rightarrow> Stopped Undefined_behaviour s
            | Some Coverage \<Rightarrow>
                let tmp = Sha1ToString env (ComputeSHA1 env Coverage)
                in if CoverageHash s tmp \<noteq> None
                   then Returned () (s\<lparr>Duplicate := Duplicate s + 1\<rparr>)
                   else Returned ()
                          (WriteUnitToFileWithPrefix env Data (''diff_'' @ SS)
                             (s\<lparr>CoverageHash := (CoverageHash s)(tmp \<mapsto> True),
                                UnitHadOutputDiff := True,
                                NumberOfDiffUnitsAdded := NumberOfDiffUnitsAdded s + 1\<rparr>)))
         else Returned () s)"

subsection \<open>Running one callback\<close>

text \<open>\<^verbatim>\<open>!memcmp(A, B, n)\<close>: the first \<open>n\<close> bytes agree. \<^verbatim>\<open>A + k\<close> is \<open>drop k A\<close>.\<close>

definition memcmp_eq :: "u8 list \<Rightarrow> u8 list \<Rightarrow> nat \<Rightarrow> bool" where
  "memcmp_eq A B n = (take n A = take n B)"

definition LooseMemeq :: "u8 list \<Rightarrow> u8 list \<Rightarrow> nat \<Rightarrow> bool" where
  "LooseMemeq A B Size =
     (let Limit = 64
      in if Size \<le> 64 then memcmp_eq A B Size
         else memcmp_eq A B (Limit div 2)
              \<and> memcmp_eq (drop (Size - Limit div 2) A) (drop (Size - Limit div 2) B)
                  (Limit div 2))"

definition MallocFreeTracer_Start :: "int \<Rightarrow> 'x fuzzer \<Rightarrow> 'x fuzzer" where
  "MallocFreeTracer_Start TraceLevel s =
     s\<lparr>AllocTracer_TraceLevel := TraceLevel,
       stdout := stdout s
         @ (if TraceLevel \<noteq> 0 then [Printf ''MallocFreeTracer: START\<newline>'' []] else []),
       AllocTracer_Mallocs := 0,
       AllocTracer_Frees := 0\<rparr>"

definition MallocFreeTracer_Stop :: "'x fuzzer \<Rightarrow> bool \<times> 'x fuzzer" where
  "MallocFreeTracer_Stop s =
     (AllocTracer_Frees s < AllocTracer_Mallocs s,
      s\<lparr>stdout := stdout s
          @ (if AllocTracer_TraceLevel s \<noteq> 0
             then [Printf ''MallocFreeTracer: STOP %zd %zd (%s)\<newline>''
                     [ArgN (AllocTracer_Mallocs s), ArgN (AllocTracer_Frees s),
                      ArgS (if AllocTracer_Mallocs s = AllocTracer_Frees s
                            then ''same'' else ''DIFFERENT'')]]
             else []),
        AllocTracer_Mallocs := 0,
        AllocTracer_Frees := 0,
        AllocTracer_TraceLevel := 0\<rparr>)"

definition CrashOnOverwrittenData :: "'x env \<Rightarrow> 'x fuzzer \<Rightarrow> ('a, 'x fuzzer) outcome" where
  "CrashOnOverwrittenData env s =
     Stopped (Exit (ErrorExitCode (Options s)))
       (prints [Printf ''SUMMARY: libFuzzer: out-of-memory\<newline>'' []]
          (DumpCurrentUnit env ''crash-''
             (prints
                [Printf ''==%d== ERROR: libFuzzer: fuzz target overwrites it's const input\<newline>''
                   [ArgN (get env GetPid (ext s))]]
                s)))"

text \<open>\<^verbatim>\<open>Fuzzer::ExecuteCallback(Data, Size)\<close>, with \<open>Data\<close> the \<open>Size\<close> bytes at the pointer.
  The state \<open>s1\<close> is the one in which the callback starts and \<open>s2\<close> the one it leaves;
  the hooks' counts of the run are those the callback reports. When \<open>Data\<close> is the
  current-unit buffer itself the source skips the copy into it, which would change
  nothing. A unit longer than that buffer overruns it.\<close>

definition ExecuteCallback :: "'x env \<Rightarrow> u8 list \<Rightarrow> 'x fuzzer \<Rightarrow> (int, 'x fuzzer) outcome" where
  "ExecuteCallback env Data s =
     (let Size = length Data;
          x0 = (if test env SMR_IsClient (ext s)
                then effect env (SMR_WriteByteArray Data) (ext s) else ext s);
          DataCopy = Data
      in if (case CurrentUnitData s of None \<Rightarrow> False | Some buf \<Rightarrow> length buf < Size)
         then Stopped Undefined_behaviour (s\<lparr>ext := x0\<rparr>)
         else
           let s1 = (MallocFreeTracer_Start (TraceMalloc (Options s))
                       (s\<lparr>CurrentUnitData :=
                            map_option (\<lambda>buf. memcpy buf 0 Data) (CurrentUnitData s),
                          CurrentUnitSize := Size\<rparr>))
                    \<lparr>UnitStartTime := get env system_clock_now x0,
                     ext := effect env TPC_ResetMaps x0,
                     RunningCB := True\<rparr>;
               (r, x1) = callback env (CB s1) DataCopy (ext s1);
               s2 = s1\<lparr>RunningCB := False,
                       UnitStopTime := get env system_clock_now x1,
                       AllocTracer_Mallocs := Mallocs_seen r,
                       AllocTracer_Frees := Frees_seen r,
                       ext := x1\<rparr>
           in if \<not> DifferentialMode (Options s2) \<and> Res r \<noteq> 0
              then Stopped Assertion_failed s2
              else
                let (more, s3) = MallocFreeTracer_Stop s2;
                    s3 = s3\<lparr>HasMoreMallocsThanFrees := more\<rparr>
                in if \<not> LooseMemeq (DataCopy_after r) Data Size
                   then CrashOnOverwrittenData env s3
                   else Returned (Res r) (s3\<lparr>CurrentUnitSize := 0\<rparr>))"

definition PrintStats :: "'x env \<Rightarrow> string \<Rightarrow> string \<Rightarrow> nat \<Rightarrow> 'x fuzzer \<Rightarrow> 'x fuzzer" where
  "PrintStats env Where End Units s =
     (if Verbosity (Options s) = 0 then s
      else
        prints
          ([Printf (''#%zd'' @ [CHR 0x09] @ ''%s'') [ArgN (TotalNumberOfRuns s), ArgS Where]]
           @ (if get env TPC_GetTotalPCCoverage (ext s) \<noteq> 0
              then [Printf '' cov: %zd'' [ArgN (get env TPC_GetTotalPCCoverage (ext s))]] else [])
           @ (if get env Corpus_NumFeatures (ext s) \<noteq> 0
              then [Printf '' ft: %zd'' [ArgN (get env Corpus_NumFeatures (ext s))]] else [])
           @ (if \<not> test env Corpus_empty (ext s)
              then [Printf '' corp: %zd'' [ArgN (get env Corpus_NumActiveUnits (ext s))]]
                   @ (let N = get env Corpus_SizeInBytes (ext s)
                      in if N \<noteq> 0
                         then (if N < 2 ^ 14 then [Printf ''/%zdb'' [ArgN N]]
                               else if N < 2 ^ 24 then [Printf ''/%zdKb'' [ArgN (N div 2 ^ 10)]]
                               else [Printf ''/%zdMb'' [ArgN (N div 2 ^ 20)]])
                         else [])
              else [])
           @ (if Units \<noteq> 0 then [Printf '' units: %zd'' [ArgN Units]] else [])
           @ [Printf '' exec/s: %zd'' [ArgN (get env execPerSec (ext s))],
              Printf '' rss: %zdMb'' [ArgN (get env GetPeakRSSMb (ext s))],
              Printf ''%s'' [ArgS End]])
          s)"

text \<open>The clock is read in nanoseconds; \<^verbatim>\<open>duration_cast<seconds>\<close> truncates. The
  comparison with \<^verbatim>\<open>TimeOfLongestUnitInSeconds * 1.1\<close> is made in floating point and is
  a parameter.\<close>

definition duration_cast_seconds :: "int \<Rightarrow> int" where
  "duration_cast_seconds d = sgn d * (\<bar>d\<bar> div 1000000000)"

definition PrintPulseAndReportSlowInput :: "'x env \<Rightarrow> u8 list \<Rightarrow> 'x fuzzer \<Rightarrow> 'x fuzzer" where
  "PrintPulseAndReportSlowInput env Data s =
     (let TimeOfUnit = duration_cast_seconds (int (UnitStopTime s) - int (UnitStartTime s));
          s1 = (if and (TotalNumberOfRuns s) (TotalNumberOfRuns s - 1) = 0
                   \<and> 2 \<le> get env secondsSinceProcessStartUp (ext s)
                then PrintStats env ''pulse '' ''\<newline>'' 0 s else s)
      in if double_gt_times_1_1 env TimeOfUnit (TimeOfLongestUnitInSeconds s1)
            \<and> ReportSlowUnits (Options s1) \<le> TimeOfUnit
         then WriteUnitToFileWithPrefix env Data ''slow-unit-''
                (prints [Printf ''Slowest unit: %zd s:\<newline>''
                           [ArgN (nat (TimeOfUnit mod int kSizeT))]]
                   (s1\<lparr>TimeOfLongestUnitInSeconds := nat (TimeOfUnit mod int kSizeT)\<rparr>))
         else s1)"

text \<open>\<^verbatim>\<open>Descr.find(pattern) != npos\<close>.\<close>

fun contains :: "string \<Rightarrow> string \<Rightarrow> bool" where
  "contains pat [] = (pat = [])"
| "contains pat (c # cs) = (take (length pat) (c # cs) = pat \<or> contains pat cs)"

text \<open>The loop of \<^verbatim>\<open>Fuzzer::CheckExitOnSrcPosOrItem\<close> over the table entries from index 1
  on: whether a matching line was found, and the static set of PCs seen.\<close>

fun ExitOnSrcPos_loop ::
  "'x env \<Rightarrow> string \<Rightarrow> uintptr_t list \<Rightarrow> uintptr_t set \<Rightarrow> bool \<times> uintptr_t set" where
  "ExitOnSrcPos_loop env pat [] S = (False, S)"
| "ExitOnSrcPos_loop env pat (PC # rest) S =
     (if PC = 0 then ExitOnSrcPos_loop env pat rest S
      else if PC \<in> S then ExitOnSrcPos_loop env pat rest S
      else if contains pat (DescribePC env PC) then (True, insert PC S)
      else ExitOnSrcPos_loop env pat rest (insert PC S))"

definition CheckExitOnSrcPosOrItem :: "'x env \<Rightarrow> 'x fuzzer \<Rightarrow> (unit, 'x fuzzer) outcome" where
  "CheckExitOnSrcPosOrItem env s =
     (let r = (if ExitOnSrcPos (Options s) \<noteq> []
               then ExitOnSrcPos_loop env (ExitOnSrcPos (Options s))
                      (drop 1 (TPC_PCs env (ext s))) (PCsSet s)
               else (False, PCsSet s));
          s1 = s\<lparr>PCsSet := snd r\<rparr>
      in if fst r
         then Stopped (Exit 0)
                (prints [Printf ''INFO: found line matching '%s', exiting.\<newline>''
                           [ArgS (ExitOnSrcPos (Options s))]] s1)
         else if ExitOnItem (Options s) \<noteq> []
                 \<and> test env (Corpus_HasUnit (ExitOnItem (Options s))) (ext s)
         then Stopped (Exit 0)
                (prints [Printf ''INFO: found item with checksum '%s', exiting.\<newline>''
                           [ArgS (ExitOnItem (Options s))]] s1)
         else Returned () s1)"

text \<open>\<^verbatim>\<open>Fuzzer::RunOneCallback(Data, Size, idx, MayDeleteFile, II)\<close>; \<open>II\<close> is the index of a
  corpus entry, or \<open>None\<close> for the null pointer. The difference of the two readings of
  \<^verbatim>\<open>Corpus.NumFeatureUpdates()\<close> is taken in \<^verbatim>\<open>size_t\<close>.\<close>

definition RunOneCallback ::
  "'x env \<Rightarrow> u8 list \<Rightarrow> nat \<Rightarrow> bool \<Rightarrow> nat option \<Rightarrow> 'x fuzzer \<Rightarrow> (bool, 'x fuzzer) outcome" where
  "RunOneCallback env Data idx MayDeleteFile II s =
     (let Size = length Data
      in if Size = 0 then Returned False s
         else
           case ExecuteCallback env Data s of
             Stopped e s' \<Rightarrow> Stopped e s'
           | Returned ret s1 \<Rightarrow>
               if DifferentialMode (Options s1) \<and> \<not> idx < length (OutputDiffVec s1)
               then Stopped Undefined_behaviour s1
               else
                 let NumUpdatesBefore = get env Corpus_NumFeatureUpdates (ext s1);
                     Features = TPC_CollectFeatures env (ext s1);
                     s2 = s1\<lparr>OutputDiffVec :=
                               (if DifferentialMode (Options s1)
                                then (OutputDiffVec s1)[idx := ret] else OutputDiffVec s1),
                             FeatureSetTmp := (if ReduceInputs (Options s1) then Features else []),
                             ext := fold (\<lambda>Feature. effect env
                                            (Corpus_AddFeature Feature Size (Shrink (Options s1))))
                                      Features (ext s1)\<rparr>;
                     s3 = PrintPulseAndReportSlowInput env Data s2;
                     NumNewFeatures =
                       (get env Corpus_NumFeatureUpdates (ext s3) + kSizeT - NumUpdatesBefore)
                         mod kSizeT
                 in if NumNewFeatures \<noteq> 0
                    then
                      (case CheckExitOnSrcPosOrItem env
                              (s3\<lparr>ext := effect env
                                     (Corpus_AddToCorpus Data NumNewFeatures MayDeleteFile
                                        (FeatureSetTmp s3)) (ext s3)\<rparr>) of
                         Stopped e s' \<Rightarrow> Stopped e s'
                       | Returned u s' \<Rightarrow> Returned True s')
                    else
                      (case II of
                         None \<Rightarrow> Returned False s3
                       | Some ii \<Rightarrow>
                           let (replaced, x) =
                                 ask env (Corpus_TryToReplace ii Data (FeatureSetTmp s3)) (ext s3)
                           in if replaced
                              then (case CheckExitOnSrcPosOrItem env (s3\<lparr>ext := x\<rparr>) of
                                      Stopped e s' \<Rightarrow> Stopped e s'
                                    | Returned u s' \<Rightarrow> Returned True s')
                              else Returned False (s3\<lparr>ext := x\<rparr>)))"

subsection \<open>Running one input\<close>

text \<open>The loop of \<^verbatim>\<open>Fuzzer::RunOne\<close> over the callbacks of \<^verbatim>\<open>TPC.UC\<close>, from index \<open>i\<close> on,
  with the running values of \<^verbatim>\<open>features\<close> and \<^verbatim>\<open>feature_vec\<close>.\<close>

fun RunOne_loop ::
  "'x env \<Rightarrow> u8 list \<Rightarrow> bool \<Rightarrow> nat option \<Rightarrow> nat list \<Rightarrow> nat \<Rightarrow> nat \<Rightarrow> int list
     \<Rightarrow> 'x fuzzer \<Rightarrow> (nat \<times> int list, 'x fuzzer) outcome" where
  "RunOne_loop env Data MayDeleteFile II [] i features feature_vec s =
     Returned (features, feature_vec) s"
| "RunOne_loop env Data MayDeleteFile II (cb # cbs) i features feature_vec s =
     (case RunOneCallback env Data i MayDeleteFile II (s\<lparr>CB := cb\<rparr>) of
        Stopped e s' \<Rightarrow> Stopped e s'
      | Returned cb_ret s' \<Rightarrow>
          RunOne_loop env Data MayDeleteFile II cbs (i + 1)
            (features + of_bool cb_ret) (feature_vec @ [of_bool cb_ret]) s')"

text \<open>\<^verbatim>\<open>log_save("./log", message)\<close> appends one line to the progress file.\<close>

definition log_save :: "string \<Rightarrow> 'x fuzzer \<Rightarrow> 'x fuzzer" where
  "log_save message s = s\<lparr>log_file := log_file s @ [message]\<rparr>"

text \<open>The part of \<^verbatim>\<open>Fuzzer::RunOne\<close> after the loop, in differential mode.\<close>

definition RunOne_decide ::
  "'x env \<Rightarrow> u8 list \<Rightarrow> bool \<Rightarrow> nat \<Rightarrow> nat \<Rightarrow> int list \<Rightarrow> 'x fuzzer
     \<Rightarrow> (bool, 'x fuzzer) outcome" where
  "RunOne_decide env Data MayDeleteFile CoverageBefore features feature_vec s =
     (let NumCoverage =
            (get env TPC_GetTotalPCCoverage (ext s) + kSizeT - CoverageBefore) mod kSizeT;
          (new_diff, x1) = ask env (TPC_NewOutputDiff_change (OutputDiffVec s)) (ext s);
          (new_trace, x2) = ask env (TPC_NewTraceDiff feature_vec) x1;
          s1 = s\<lparr>NumberofValidCases :=
                    (if new_trace then NumberofValidCases s + 1 else NumberofValidCases s),
                  ext := x2\<rparr>
      in case (if new_diff
               then (case DumpUnitIfDiff env Data (s1\<lparr>FeatureSetTmp := []\<rparr>) of
                       Stopped e s' \<Rightarrow> Stopped e s'
                     | Returned u s2 \<Rightarrow>
                         if UnitHadOutputDiff s2
                         then Returned ()
                                (s2\<lparr>ext := effect env
                                       (Corpus_AddToCorpus Data NumCoverage MayDeleteFile
                                          (FeatureSetTmp s2)) (ext s2)\<rparr>)
                         else Returned () s2)
               else Returned () s1) of
           Stopped e s' \<Rightarrow> Stopped e s'
         | Returned u s3 \<Rightarrow>
             let s4 = s3\<lparr>TotalNumberOfRuns := TotalNumberOfRuns s3 + 1\<rparr>;
                 s5 = (if sint (word_of_nat (TotalNumberOfRuns s4) :: 32 word) mod 20 = 0
                       then log_save
                              (dec (TotalNumberOfRuns s4) @ [CHR 0x09] @ dec (Duplicate s4)
                               @ [CHR 0x09] @ dec (NumberOfDiffUnitsAdded s4)
                               @ [CHR 0x09] @ dec (NumberofValidCases s4)) s4
                       else s4)
             in Returned (if 0 < features then features \<noteq> 0 else new_diff) s5)"

definition RunOne ::
  "'x env \<Rightarrow> u8 list \<Rightarrow> bool \<Rightarrow> nat option \<Rightarrow> 'x fuzzer \<Rightarrow> (bool, 'x fuzzer) outcome" where
  "RunOne env Data MayDeleteFile II s =
     (if DifferentialMode (Options s)
      then
        let s0 = s\<lparr>UnitHadOutputDiff := False, ext := effect env TPC_ResetCoverage (ext s)\<rparr>;
            CoverageBefore = get env TPC_GetTotalPCCoverage (ext s0)
        in case RunOne_loop env Data MayDeleteFile II (TPC_UC_callbacks env) 0 0 [] s0 of
             Stopped e s' \<Rightarrow> Stopped e s'
           | Returned (features, feature_vec) s1 \<Rightarrow>
               RunOne_decide env Data MayDeleteFile CoverageBefore features feature_vec s1
      else RunOneCallback env Data 0 MayDeleteFile II s)"

subsection \<open>The mutation loop\<close>

definition PrintStatusForNewUnit :: "'x env \<Rightarrow> u8 list \<Rightarrow> 'x fuzzer \<Rightarrow> 'x fuzzer" where
  "PrintStatusForNewUnit env U s =
     (if \<not> PrintNEW (Options s) then s
      else
        prints (if Verbosity (Options s) \<noteq> 0
                then [Printf '' L: %zd '' [ArgN (length U)], MD_PrintMutationSequence,
                      Printf ''\<newline>'' []]
                else [])
          (PrintStats env ''NEW   '' [] 0 s))"

definition WriteToOutputCorpus :: "'x env \<Rightarrow> u8 list \<Rightarrow> 'x fuzzer \<Rightarrow> (unit, 'x fuzzer) outcome" where
  "WriteToOutputCorpus env U s =
     (if OnlyASCII (Options s) \<and> \<not> IsASCII env U then Stopped Assertion_failed s
      else if OutputCorpus (Options s) = [] then Returned () s
      else
        let Path = DirPlusFile env (OutputCorpus (Options s)) (Hash env U)
        in Returned ()
             (prints (if 2 \<le> Verbosity (Options s)
                      then [Printf ''Written to %s\<newline>'' [ArgS Path]] else [])
                (WriteToFile U Path s)))"

definition ReportNewCoverage ::
  "'x env \<Rightarrow> nat \<Rightarrow> u8 list \<Rightarrow> 'x fuzzer \<Rightarrow> (unit, 'x fuzzer) outcome" where
  "ReportNewCoverage env II U s =
     (case WriteToOutputCorpus env U
             (PrintStatusForNewUnit env U
                (s\<lparr>ext := effect env MD_RecordSuccessfulMutationSequence
                             (effect env (II_NumSuccessfullMutations_incr II) (ext s))\<rparr>)) of
        Stopped e s' \<Rightarrow> Stopped e s'
      | Returned u s' \<Rightarrow>
          Returned ()
            (prints [TPC_PrintNewPCs]
               (s'\<lparr>NumberOfNewUnitsAdded := NumberOfNewUnitsAdded s' + 1\<rparr>)))"

text \<open>\<^verbatim>\<open>Fuzzer::TryDetectingAMemoryLeak\<close>; the three LeakSanitizer entry points are there
  or absent together.\<close>

definition TryDetectingAMemoryLeak ::
  "'x env \<Rightarrow> u8 list \<Rightarrow> bool \<Rightarrow> 'x fuzzer \<Rightarrow> (unit, 'x fuzzer) outcome" where
  "TryDetectingAMemoryLeak env Data DuringInitialCorpusExecution s =
     (if \<not> HasMoreMallocsThanFrees s then Returned () s
      else if \<not> DetectLeaks (Options s) then Returned () s
      else if \<not> test env EF_lsan (ext s) then Returned () s
      else
        case ExecuteCallback env Data (s\<lparr>ext := effect env lsan_disable (ext s)\<rparr>) of
          Stopped e s' \<Rightarrow> Stopped e s'
        | Returned ret s0 \<Rightarrow>
            let s1 = s0\<lparr>ext := effect env lsan_enable (ext s0)\<rparr>
            in if \<not> HasMoreMallocsThanFrees s1 then Returned () s1
               else
                 let s2 = s1\<lparr>NumberOfLeakDetectionAttempts :=
                                 NumberOfLeakDetectionAttempts s1 + 1\<rparr>
                 in if 1000 < NumberOfLeakDetectionAttempts s1
                    then Returned ()
                           (prints [Printf (''INFO: libFuzzer disabled leak detection after every mutation.\<newline>''
                                              @ ''      Most likely the target function accumulates allocated\<newline>''
                                              @ ''      memory in a global state w/o actually leaking it.\<newline>''
                                              @ ''      You may try running this binary with -trace_malloc=[12]''
                                              @ ''      to get a trace of mallocs and frees.\<newline>''
                                              @ ''      If LeakSanitizer is enabled in this process it will still\<newline>''
                                              @ ''      run on the process shutdown.\<newline>'') []]
                              (s2\<lparr>Options := (Options s2)\<lparr>DetectLeaks := False\<rparr>\<rparr>))
                    else
                      let (leak, x) = ask env lsan_do_recoverable_leak_check (ext s2)
                      in if leak
                         then Stopped (Exit (ErrorExitCode (Options s2)))
                                (PrintFinalStats env
                                   (DumpCurrentUnit env ''leak-''
                                      ((prints
                                          ((if DuringInitialCorpusExecution
                                            then [Printf ''\<newline>INFO: a leak has been found in the initial corpus.\<newline>\<newline>'' []]
                                            else [])
                                           @ [Printf ''INFO: to ignore leaks on libFuzzer side use -detect_leaks=0.\<newline>\<newline>'' []])
                                          (s2\<lparr>ext := x\<rparr>))
                                       \<lparr>CurrentUnitSize := length Data\<rparr>)))
                         else Returned () (s2\<lparr>ext := x\<rparr>))"

text \<open>The bytes \<^verbatim>\<open>{CurrentUnitData, CurrentUnitData + n}\<close>.\<close>

definition CurrentUnit :: "'x fuzzer \<Rightarrow> nat \<Rightarrow> u8 list" where
  "CurrentUnit s n = (case CurrentUnitData s of None \<Rightarrow> [] | Some buf \<Rightarrow> take n buf)"

text \<open>The \<^verbatim>\<open>do ... while (NewSize > CurrentMaxMutationLen)\<close> loop of
  \<^verbatim>\<open>Fuzzer::MutateAndTestOne\<close>. A \<^verbatim>\<open>continue\<close> inside \<^verbatim>\<open>do ... while\<close> jumps to the test of
  the loop condition, so both the branch that counts a duplicate and the branch that
  records the hash arrive at that test. The loop gives back the bytes saved in
  \<^verbatim>\<open>PreviousUnit\<close> (\<^verbatim>\<open>PreviousSize\<close> is their number) and \<^verbatim>\<open>NewSize\<close>; it may run forever, in
  which case the value is \<open>None\<close>. The mutation engine works in place on the current-unit
  buffer and returns the new size.\<close>

partial_function (option) Mutate_do_while ::
  "'x env \<Rightarrow> nat \<Rightarrow> nat \<Rightarrow> 'x fuzzer \<Rightarrow> (u8 list \<times> nat, 'x fuzzer) outcome option" where
  "Mutate_do_while env Size CurrentMax s =
     (case CurrentUnitData s of
        None \<Rightarrow> Some (Stopped Undefined_behaviour s)
      | Some buf \<Rightarrow>
          (case MD_Mutate env buf Size CurrentMax (ext s) of
             ((buf', NewSize), x) \<Rightarrow>
               if length buf' < NewSize
               then Some (Stopped Undefined_behaviour (s\<lparr>CurrentUnitData := Some buf', ext := x\<rparr>))
               else
                 let tmp = ComputeSHA1 env (take NewSize buf');
                     s1 = (if hashMap s tmp \<noteq> None
                           then s\<lparr>CurrentUnitData := Some buf', ext := x,
                                  NumberOfDuplicate := NumberOfDuplicate s + 1\<rparr>
                           else s\<lparr>CurrentUnitData := Some buf', ext := x,
                                  hashMap := (hashMap s)(tmp \<mapsto> True)\<rparr>)
                 in if CurrentMax < NewSize
                    then Mutate_do_while env Size CurrentMax s1
                    else Some (Returned (take Size buf, NewSize) s1)))"

text \<open>The \<^verbatim>\<open>for\<close> loop of \<^verbatim>\<open>Fuzzer::MutateAndTestOne\<close>, with the iterations that remain.\<close>

fun MutateAndTestOne_loop ::
  "'x env \<Rightarrow> nat \<Rightarrow> nat \<Rightarrow> nat \<Rightarrow> nat \<Rightarrow> 'x fuzzer \<Rightarrow> (unit, 'x fuzzer) outcome option" where
  "MutateAndTestOne_loop env 0 II Size CurrentMax s = Some (Returned () s)"
| "MutateAndTestOne_loop env (Suc n) II Size CurrentMax s =
     (if MaxNumberOfRuns (Options s) \<le> TotalNumberOfRuns s then Some (Returned () s)
      else
        case Mutate_do_while env Size CurrentMax s of
          None \<Rightarrow> None
        | Some (Stopped e s') \<Rightarrow> Some (Stopped e s')
        | Some (Returned (PreviousUnit, NewSize) s1) \<Rightarrow>
            if \<not> 0 < NewSize then Some (Stopped Assertion_failed s1)
            else if \<not> NewSize \<le> CurrentMax then Some (Stopped Assertion_failed s1)
            else
              let Size = NewSize;
                  s2 = s1\<lparr>ext := effect env (II_NumExecutedMutations_incr II) (ext s1)\<rparr>
              in (case RunOne env (CurrentUnit s2 Size) True (Some II) s2 of
                   Stopped e s' \<Rightarrow> Some (Stopped e s')
                 | Returned interesting s3 \<Rightarrow>
                     (case (if interesting
                            then (case ReportNewCoverage env II (CurrentUnit s3 Size) s3 of
                                    Stopped e s' \<Rightarrow> Stopped e s'
                                  | Returned u s4 \<Rightarrow>
                                      Returned ()
                                        (if UnitHadOutputDiff s4
                                         then WriteUnitToFileWithPrefix env PreviousUnit
                                                (Sha1ToString env
                                                   (ComputeSHA1 env (CurrentUnit s4 Size))
                                                 @ ''_BeforeMutationWas_'') s4
                                         else s4))
                            else Returned () s3) of
                        Stopped e s' \<Rightarrow> Some (Stopped e s')
                      | Returned u s5 \<Rightarrow>
                          (case TryDetectingAMemoryLeak env (CurrentUnit s5 Size) False s5 of
                             Stopped e s' \<Rightarrow> Some (Stopped e s')
                           | Returned u s6 \<Rightarrow>
                               MutateAndTestOne_loop env n II Size CurrentMax s6))))"

definition MutateAndTestOne :: "'x env \<Rightarrow> 'x fuzzer \<Rightarrow> (unit, 'x fuzzer) outcome option" where
  "MutateAndTestOne env s =
     (case Corpus_ChooseUnitToMutate env (effect env MD_StartMutationSequence (ext s)) of
        ((II, U, Sha1), x) \<Rightarrow>
          let s1 = s\<lparr>BaseSha1 := Sha1, ext := x\<rparr>;
              Size = length U
          in (case CurrentUnitData s1 of
                None \<Rightarrow> Some (Stopped Assertion_failed s1)
              | Some buf \<Rightarrow>
                  if \<not> Size \<le> MaxInputLen s1 then Some (Stopped Assertion_failed s1)
                  else if length buf < Size then Some (Stopped Undefined_behaviour s1)
                  else
                    let s2 = s1\<lparr>CurrentUnitData := Some (memcpy buf 0 U)\<rparr>
                    in if \<not> 0 < MaxMutationLen s2 then Some (Stopped Assertion_failed s2)
                       else
                         (case CurrentMaxMutationLen env s2 of
                            Stopped e s' \<Rightarrow> Some (Stopped e s')
                          | Returned CurrentMax s3 \<Rightarrow>
                              MutateAndTestOne_loop env (nat (MutateDepth (Options s3))) II Size
                                CurrentMax s3)))"

subsection \<open>The divergence coverage in the words of the specification\<close>

text \<open>A native word packed little-endian into eight bytes.\<close>

definition le_bytes :: "uintptr_t \<Rightarrow> u8 list" where
  "le_bytes w = map (\<lambda>k. ucast (drop_bit (8 * k) w)) [0..<8]"

text \<open>The data model of the specification: entry \<open>i\<close> of the table of counts is the number
  of PCs that belong to callback \<open>i\<close>, the PCs of the callbacks follow one another in the
  global PC table, and \<open>prefix[i]\<close> is the number of PCs that come before those of entry
  \<open>i\<close>, so \<open>prefix[0] = 0\<close>. The region of entry \<open>i\<close> is the words from \<open>prefix[i]\<close> to
  \<open>prefix[i + 1]\<close>.\<close>

definition PC_prefix :: "nat list \<Rightarrow> nat \<Rightarrow> nat" where
  "PC_prefix counts i = sum_list (take i counts)"

definition PC_region :: "uintptr_t list \<Rightarrow> nat list \<Rightarrow> nat \<Rightarrow> uintptr_t list" where
  "PC_region PCs counts i =
     take (PC_prefix counts (i + 1) - PC_prefix counts i) (drop (PC_prefix counts i) PCs)"

text \<open>The concatenation, over the first \<open>n\<close> callbacks \<open>i\<close> with a non-zero return code, in
  increasing order, of the bytes of the region of entry \<open>i + d\<close>. With \<open>d = 0\<close> every
  callback contributes its own region, which is what the specification says.\<close>

definition Coverage_upto ::
  "uintptr_t list \<Rightarrow> nat list \<Rightarrow> int list \<Rightarrow> nat \<Rightarrow> nat \<Rightarrow> u8 list" where
  "Coverage_upto PCs counts vec d n =
     concat (map (\<lambda>i. if vec ! i \<noteq> 0
                       then concat (map le_bytes (PC_region PCs counts (i + d))) else [])
               [0..<n])"

definition DivergenceCoverage_spec :: "uintptr_t list \<Rightarrow> nat list \<Rightarrow> int list \<Rightarrow> u8 list" where
  "DivergenceCoverage_spec PCs counts vec = Coverage_upto PCs counts vec 0 (length vec)"


text \<open>The same concatenation with the entries shifted by one: callback \<open>i\<close> contributes the
  region of entry \<open>i + 1\<close>, the \<open>counts[i + 1]\<close> words that follow the first
  \<open>counts[0] + \<dots> + counts[i]\<close> words of the PC table.\<close>

definition DivergenceCoverage_shifted :: "uintptr_t list \<Rightarrow> nat list \<Rightarrow> int list \<Rightarrow> u8 list" where
  "DivergenceCoverage_shifted PCs counts vec = Coverage_upto PCs counts vec 1 (length vec)"

subsection \<open>Histories of divergence reports\<close>

text \<open>\<^verbatim>\<open>CoverageHash\<close> is mentioned by \<^verbatim>\<open>DumpUnitIfDiff\<close> only. A history of the process is
  therefore any sequence of steps that leave \<^verbatim>\<open>CoverageHash\<close> as it is and of calls of
  \<^verbatim>\<open>DumpUnitIfDiff\<close> that return; each such call that computes a fingerprint is recorded
  with the fingerprint and the files that the call wrote.\<close>

inductive history ::
  "'x env \<Rightarrow> 'x fuzzer \<Rightarrow> (string \<times> (string \<times> u8 list) list) list \<Rightarrow> 'x fuzzer \<Rightarrow> bool"
  for env :: "'x env" and s0 :: "'x fuzzer" where
    start: "history env s0 [] s0"
  | other: "history env s0 h s \<Longrightarrow> CoverageHash s' = CoverageHash s \<Longrightarrow> history env s0 h s'"
  | dump: "history env s0 h s \<Longrightarrow> DumpUnitIfDiff env Data s = Returned () s'
           \<Longrightarrow> DivergenceCoverage env s = Some Cov
           \<Longrightarrow> history env s0
                 (h @ [(Sha1ToString env (ComputeSHA1 env Cov), drop (length (files s)) (files s'))])
                 s'"

text \<open>The artifacts that a history wrote for one fingerprint.\<close>

definition artifacts_of ::
  "string \<Rightarrow> (string \<times> (string \<times> u8 list) list) list \<Rightarrow> (string \<times> u8 list) list" where
  "artifacts_of fp h = concat (map snd (filter (\<lambda>e. fst e = fp) h))"

subsection \<open>A small instance\<close>

text \<open>Concrete collaborators on which the routines can be run. Two targets are
  registered; target \<open>i\<close> returns \<open>i\<close>, so they disagree on every input, and target 2
  (not registered) writes to its input. The mutation engine replays a script of units,
  the stand-in for SHA-1 is the identity, the coverage counter is the number of
  executions so far, and the corpus records what is added to it.\<close>

record sim =
  sim_executed :: "(nat \<times> u8 list) list"
  sim_mutations :: "u8 list list"
  sim_seen :: "int list list"
  sim_corpus :: "(u8 list \<times> nat \<times> nat list) list"

definition sim_get :: "ext_get \<Rightarrow> sim \<Rightarrow> nat" where
  "sim_get q x =
     (case q of
        TPC_GetTotalPCCoverage \<Rightarrow> length (sim_executed x)
      | GetPid \<Rightarrow> 1
      | Corpus_MaxInputSize \<Rightarrow> 1
      | _ \<Rightarrow> 0)"

definition sim_effect :: "ext_do \<Rightarrow> sim \<Rightarrow> sim" where
  "sim_effect c x =
     (case c of
        Corpus_AddToCorpus U n d F \<Rightarrow> x\<lparr>sim_corpus := sim_corpus x @ [(U, n, F)]\<rparr>
      | _ \<Rightarrow> x)"

definition sim_ask :: "ext_ask \<Rightarrow> sim \<Rightarrow> bool \<times> sim" where
  "sim_ask a x =
     (case a of
        TPC_NewOutputDiff_change v \<Rightarrow> (v \<notin> set (sim_seen x), x\<lparr>sim_seen := v # sim_seen x\<rparr>)
      | _ \<Rightarrow> (False, x))"

definition sim_callback :: "nat \<Rightarrow> u8 list \<Rightarrow> sim \<Rightarrow> cb_result \<times> sim" where
  "sim_callback cb Data x =
     (\<lparr>Res = int cb,
       DataCopy_after = (if cb = 2 then map (\<lambda>b. b + 1) Data else Data),
       Mallocs_seen = 0, Frees_seen = 0\<rparr>,
      x\<lparr>sim_executed := sim_executed x @ [(cb, Data)]\<rparr>)"

definition sim_Mutate :: "u8 list \<Rightarrow> nat \<Rightarrow> nat \<Rightarrow> sim \<Rightarrow> (u8 list \<times> nat) \<times> sim" where
  "sim_Mutate buf Size MaxSize x =
     (case sim_mutations x of
        [] \<Rightarrow> ((buf, Size), x)
      | m # ms \<Rightarrow> ((memcpy buf 0 m, length m), x\<lparr>sim_mutations := ms\<rparr>))"

definition sim_hex :: "u8 list \<Rightarrow> string" where
  "sim_hex bs = concat (map (\<lambda>b. [''0123456789abcdef'' ! (unat b div 16),
                                     ''0123456789abcdef'' ! (unat b mod 16)]) bs)"

definition sim_env :: "sim env" where
  "sim_env =
     \<lparr>get = sim_get,
      test = (\<lambda>t x. False),
      effect = sim_effect,
      ask = sim_ask,
      callback = sim_callback,
      TPC_UC_callbacks = [0, 1],
      TPC_PCs = (\<lambda>x. [0x11, 0x2233, 0x44]),
      TPC_ModuleNum = (\<lambda>x. [1, 1, 1]),
      TPC_CollectFeatures = (\<lambda>x. []),
      Corpus_ChooseUnitToMutate = (\<lambda>x. ((0, [0x41], []), x)),
      MD_Mutate = sim_Mutate,
      Rand_Rand = (\<lambda>x. (32768, x)),
      ComputeSHA1 = (\<lambda>bs. bs),
      Sha1ToString = sim_hex,
      Hash = sim_hex,
      Base64 = (\<lambda>bs. []),
      IsASCII = (\<lambda>bs. True),
      DirPlusFile = (\<lambda>d f. d @ ''/'' @ f),
      DescribePC = (\<lambda>pc. []),
      double_gt_times_1_1 = (\<lambda>t l. 11 * int l < 10 * t)\<rparr>"

definition sim_world :: sim where
  "sim_world = \<lparr>sim_executed = [], sim_mutations = [], sim_seen = [], sim_corpus = []\<rparr>"

definition sim_options :: options where
  "sim_options =
     \<lparr>RssLimitMb = 64, ErrorExitCode = 1, SaveArtifacts = True, ArtifactPrefix = ''./'',
      ExactArtifactPath = [], DifferentialMode = True, PrintCoverage = False,
      DumpCoverage = False, PrintCorpusStats = False, PrintFinalStats_opt = True,
      Verbosity = 0, Shrink = False, ReduceInputs = False, ReportSlowUnits = 10,
      ExitOnSrcPos = [], ExitOnItem = [], TraceMalloc = 0, OnlyASCII = False,
      OutputCorpus = [], PrintNEW = False, DetectLeaks = False,
      ExperimentalLenControl = False, MutateDepth = 2, MaxNumberOfRuns = 100\<rparr>"

definition sim_fuzzer :: "sim fuzzer" where
  "sim_fuzzer =
     \<lparr>Options = sim_options, CB = 0, CurrentUnitData = Some [0, 0, 0, 0],
      CurrentUnitSize = 0, BaseSha1 = [], MaxInputLen = 4, MaxMutationLen = 4,
      UnitHadOutputDiff = False, CoverageHash = Map.empty, hashMap = Map.empty,
      Duplicate = 0, NumberOfDuplicate = 0, NumberOfDiffUnitsAdded = 0,
      NumberofValidCases = 0, NumberOfNewUnitsAdded = 0, NumberOfLeakDetectionAttempts = 0,
      TotalNumberOfRuns = 0, TimeOfLongestUnitInSeconds = 0,
      HasMoreMallocsThanFrees = False, RunningCB = False, UnitStartTime = 0,
      UnitStopTime = 0, FeatureSetTmp = [], OutputDiffVec = [0, 0], PCsSet = {},
      AllocTracer_Mallocs = 0, AllocTracer_Frees = 0, AllocTracer_TraceLevel = 0,
      files = [], stdout = [], log_file = [], ext = sim_world\<rparr>"

text \<open>Reading off an outcome.\<close>

fun state_of :: "('a, 's) outcome \<Rightarrow> 's" where
  "state_of (Stopped e s) = s"
| "state_of (Returned v s) = s"

fun stop_of :: "('a, 's) outcome \<Rightarrow> stop option" where
  "stop_of (Stopped e s) = Some e"
| "stop_of (Returned v s) = None"

fun value_of :: "('a, 's) outcome \<Rightarrow> 'a option" where
  "value_of (Stopped e s) = None"
| "value_of (Returned v s) = Some v"

section \<open>Properties\<close>

subsection \<open>What the printing and dumping routines leave alone\<close>

lemma prints_frame [simp]:
  "Options (prints es s) = Options s"
  "files (prints es s) = files s"
  "ext (prints es s) = ext s"
  "CurrentUnitData (prints es s) = CurrentUnitData s"
  "CurrentUnitSize (prints es s) = CurrentUnitSize s"
  "BaseSha1 (prints es s) = BaseSha1 s"
  "UnitHadOutputDiff (prints es s) = UnitHadOutputDiff s"
  "CoverageHash (prints es s) = CoverageHash s"
  "Duplicate (prints es s) = Duplicate s"
  "NumberOfDiffUnitsAdded (prints es s) = NumberOfDiffUnitsAdded s"
  "FeatureSetTmp (prints es s) = FeatureSetTmp s"
  "OutputDiffVec (prints es s) = OutputDiffVec s"
  "TimeOfLongestUnitInSeconds (prints es s) = TimeOfLongestUnitInSeconds s"
  "stdout (prints es s) = stdout s @ es"
  by (simp_all add: prints_def)

lemma WriteToFile_frame [simp]:
  "Options (WriteToFile U P s) = Options s"
  "files (WriteToFile U P s) = files s @ [(P, U)]"
  "ext (WriteToFile U P s) = ext s"
  "CurrentUnitData (WriteToFile U P s) = CurrentUnitData s"
  "CurrentUnitSize (WriteToFile U P s) = CurrentUnitSize s"
  "BaseSha1 (WriteToFile U P s) = BaseSha1 s"
  "UnitHadOutputDiff (WriteToFile U P s) = UnitHadOutputDiff s"
  "CoverageHash (WriteToFile U P s) = CoverageHash s"
  "Duplicate (WriteToFile U P s) = Duplicate s"
  "NumberOfDiffUnitsAdded (WriteToFile U P s) = NumberOfDiffUnitsAdded s"
  "FeatureSetTmp (WriteToFile U P s) = FeatureSetTmp s"
  "OutputDiffVec (WriteToFile U P s) = OutputDiffVec s"
  by (simp_all add: WriteToFile_def)

text \<open>The path under which \<^verbatim>\<open>WriteUnitToFileWithPrefix\<close> stores a unit.\<close>

lemma files_WriteUnitToFileWithPrefix:
  "files (WriteUnitToFileWithPrefix env U P s) =
     files s @ (if SaveArtifacts (Options s)
                then [(if ExactArtifactPath (Options s) \<noteq> [] then ExactArtifactPath (Options s)
                       else ArtifactPrefix (Options s) @ P @ Hash env U, U)]
                else [])"
  by (simp add: WriteUnitToFileWithPrefix_def Let_def)

lemma WriteUnitToFileWithPrefix_frame [simp]:
  "Options (WriteUnitToFileWithPrefix env U P s) = Options s"
  "ext (WriteUnitToFileWithPrefix env U P s) = ext s"
  "CurrentUnitData (WriteUnitToFileWithPrefix env U P s) = CurrentUnitData s"
  "CurrentUnitSize (WriteUnitToFileWithPrefix env U P s) = CurrentUnitSize s"
  "UnitHadOutputDiff (WriteUnitToFileWithPrefix env U P s) = UnitHadOutputDiff s"
  "CoverageHash (WriteUnitToFileWithPrefix env U P s) = CoverageHash s"
  "Duplicate (WriteUnitToFileWithPrefix env U P s) = Duplicate s"
  "NumberOfDiffUnitsAdded (WriteUnitToFileWithPrefix env U P s) = NumberOfDiffUnitsAdded s"
  "FeatureSetTmp (WriteUnitToFileWithPrefix env U P s) = FeatureSetTmp s"
  "OutputDiffVec (WriteUnitToFileWithPrefix env U P s) = OutputDiffVec s"
  by (simp_all add: WriteUnitToFileWithPrefix_def Let_def)

lemma files_DumpCurrentUnit:
  "files (DumpCurrentUnit env P s) =
     files s @ (case CurrentUnitData s of
                  None \<Rightarrow> []
                | Some buf \<Rightarrow>
                    if SaveArtifacts (Options s)
                    then [(if ExactArtifactPath (Options s) \<noteq> []
                           then ExactArtifactPath (Options s)
                           else ArtifactPrefix (Options s) @ P
                                @ Hash env (take (CurrentUnitSize s) buf),
                           take (CurrentUnitSize s) buf)]
                    else [])"
  by (simp add: DumpCurrentUnit_def Let_def files_WriteUnitToFileWithPrefix split: option.splits)

lemma DumpCurrentUnit_frame [simp]:
  "Options (DumpCurrentUnit env P s) = Options s"
  "ext (DumpCurrentUnit env P s) = ext s"
  "UnitHadOutputDiff (DumpCurrentUnit env P s) = UnitHadOutputDiff s"
  by (simp_all add: DumpCurrentUnit_def Let_def split: option.splits)

lemma PrintFinalStats_frame [simp]:
  "Options (PrintFinalStats env s) = Options s"
  "files (PrintFinalStats env s) = files s"
  "ext (PrintFinalStats env s) = ext s"
  by (simp_all add: PrintFinalStats_def)

lemma PrintStats_frame [simp]:
  "Options (PrintStats env W E U s) = Options s"
  "files (PrintStats env W E U s) = files s"
  "ext (PrintStats env W E U s) = ext s"
  "UnitHadOutputDiff (PrintStats env W E U s) = UnitHadOutputDiff s"
  "FeatureSetTmp (PrintStats env W E U s) = FeatureSetTmp s"
  "OutputDiffVec (PrintStats env W E U s) = OutputDiffVec s"
  "TimeOfLongestUnitInSeconds (PrintStats env W E U s) = TimeOfLongestUnitInSeconds s"
  by (simp_all add: PrintStats_def)

lemma PrintPulseAndReportSlowInput_frame [simp]:
  "Options (PrintPulseAndReportSlowInput env Data s) = Options s"
  "ext (PrintPulseAndReportSlowInput env Data s) = ext s"
  "UnitHadOutputDiff (PrintPulseAndReportSlowInput env Data s) = UnitHadOutputDiff s"
  "FeatureSetTmp (PrintPulseAndReportSlowInput env Data s) = FeatureSetTmp s"
  "OutputDiffVec (PrintPulseAndReportSlowInput env Data s) = OutputDiffVec s"
  by (simp_all add: PrintPulseAndReportSlowInput_def Let_def)

lemma CheckExitOnSrcPosOrItem_frame [simp]:
  "UnitHadOutputDiff (state_of (CheckExitOnSrcPosOrItem env s)) = UnitHadOutputDiff s"
  by (simp add: CheckExitOnSrcPosOrItem_def Let_def)

lemma ExecuteCallback_frame [simp]:
  "UnitHadOutputDiff (state_of (ExecuteCallback env Data s)) = UnitHadOutputDiff s"
  by (simp add: ExecuteCallback_def Let_def MallocFreeTracer_Start_def
      MallocFreeTracer_Stop_def CrashOnOverwrittenData_def split: prod.splits)

lemma RunOneCallback_frame [simp]:
  "UnitHadOutputDiff (state_of (RunOneCallback env Data idx m II s)) = UnitHadOutputDiff s"
proof (cases "ExecuteCallback env Data s")
  case (Stopped e s')
  with ExecuteCallback_frame [of env Data s] show ?thesis
    by (simp add: RunOneCallback_def)
next
  case (Returned ret s1)
  with ExecuteCallback_frame [of env Data s] have u: "UnitHadOutputDiff s1 = UnitHadOutputDiff s"
    by simp
  have c: "UnitHadOutputDiff (state_of (case CheckExitOnSrcPosOrItem env t of
                                          Stopped e s' \<Rightarrow> Stopped e s'
                                        | Returned u s' \<Rightarrow> Returned True s'))
             = UnitHadOutputDiff t" for t :: "'a fuzzer"
    using CheckExitOnSrcPosOrItem_frame [of env t]
    by (cases "CheckExitOnSrcPosOrItem env t") simp_all
  show ?thesis
    using Returned u
    by (simp add: RunOneCallback_def Let_def c split: option.splits prod.splits)
qed

lemma RunOne_loop_frame:
  "UnitHadOutputDiff (state_of (RunOne_loop env Data m II cbs i f fv s)) = UnitHadOutputDiff s"
proof (induction cbs arbitrary: i f fv s)
  case Nil
  show ?case by simp
next
  case (Cons cb cbs)
  show ?case
  proof (cases "RunOneCallback env Data i m II (s\<lparr>CB := cb\<rparr>)")
    case (Stopped e s')
    with RunOneCallback_frame [of env Data i m II "s\<lparr>CB := cb\<rparr>"] show ?thesis by simp
  next
    case (Returned r s')
    with RunOneCallback_frame [of env Data i m II "s\<lparr>CB := cb\<rparr>"] Cons.IH show ?thesis
      by simp
  qed
qed

subsection \<open>The malloc hook\<close>

lemma shift_below_limit:
  fixes Size L :: nat
  assumes "Size < L * 2 ^ 20"
  shows "Size div 2 ^ 20 < L"
  using assms by (simp add: less_mult_imp_div_less)

lemma shift_above_limit:
  fixes Size L :: nat
  assumes "L * 2 ^ 20 \<le> Size"
  shows "\<not> Size div 2 ^ 20 < L"
proof -
  have "L = (L * 2 ^ 20) div 2 ^ 20" by simp
  also have "\<dots> \<le> Size div 2 ^ 20" using assms by (rule div_le_mono)
  finally show ?thesis by simp
qed

lemma size_t_cast_nonneg:
  assumes "0 \<le> L" and "L < 2 ^ 64"
  shows "nat (L mod int kSizeT) = nat L"
  using assms by (simp add: kSizeT_def)

lemma sim_simps [simp]:
  "Options sim_fuzzer = sim_options"
  "files sim_fuzzer = []"
  "CurrentUnitData sim_fuzzer = Some [0, 0, 0, 0]"
  "CurrentUnitSize sim_fuzzer = 0"
  "ext sim_fuzzer = sim_world"
  "RssLimitMb sim_options = 64"
  "ErrorExitCode sim_options = 1"
  "SaveArtifacts sim_options = True"
  "ExactArtifactPath sim_options = []"
  "ArtifactPrefix sim_options = ''./''"
  by (simp_all add: sim_fuzzer_def sim_options_def)

text \<open>Claim C8, as amended. With a positive limit of \<open>L\<close> megabytes, \<^verbatim>\<open>HandleMalloc\<close> returns
  without any effect for an allocation below \<open>L * 2 ^ 20\<close> bytes, and always when the limit
  is 0. For an allocation above \<open>L * 2 ^ 20\<close> bytes it ends the process with
  \<^verbatim>\<open>ErrorExitCode\<close>, after \<^verbatim>\<open>PrintFinalStats\<close>; the \<^verbatim>\<open>oom-\<close> artifact of the current unit is
  written only when \<^verbatim>\<open>SaveArtifacts\<close> is set and the current-unit buffer is allocated, and
  no other file is written.\<close>

theorem HandleMalloc_policy:
  assumes "0 \<le> RssLimitMb (Options s)" and "RssLimitMb (Options s) < 2 ^ 64"
  shows "(RssLimitMb (Options s) = 0 \<or> Size < nat (RssLimitMb (Options s)) * 2 ^ 20
            \<longrightarrow> HandleMalloc env Size s = Returned () s)
       \<and> (RssLimitMb (Options s) \<noteq> 0 \<and> nat (RssLimitMb (Options s)) * 2 ^ 20 < Size
            \<longrightarrow> stop_of (HandleMalloc env Size s) = Some (Exit (ErrorExitCode (Options s)))
              \<and> (\<exists>s1. state_of (HandleMalloc env Size s) = PrintFinalStats env s1
                      \<and> files s1 =
                          files s @ (case CurrentUnitData s of
                               None \<Rightarrow> []
                             | Some buf \<Rightarrow>
                                 if SaveArtifacts (Options s)
                                 then [(if ExactArtifactPath (Options s) \<noteq> []
                                        then ExactArtifactPath (Options s)
                                        else ArtifactPrefix (Options s) @ ''oom-''
                                             @ Hash env (take (CurrentUnitSize s) buf),
                                        take (CurrentUnitSize s) buf)]
                                 else []))
              \<and> files (state_of (HandleMalloc env Size s)) =
                  files s @ (case CurrentUnitData s of
                               None \<Rightarrow> []
                             | Some buf \<Rightarrow>
                                 if SaveArtifacts (Options s)
                                 then [(if ExactArtifactPath (Options s) \<noteq> []
                                        then ExactArtifactPath (Options s)
                                        else ArtifactPrefix (Options s) @ ''oom-''
                                             @ Hash env (take (CurrentUnitSize s) buf),
                                        take (CurrentUnitSize s) buf)]
                                 else []))"
proof (intro conjI impI)
  assume "RssLimitMb (Options s) = 0 \<or> Size < nat (RssLimitMb (Options s)) * 2 ^ 20"
  then show "HandleMalloc env Size s = Returned () s"
    using assms shift_below_limit [of Size "nat (RssLimitMb (Options s))"]
    by (auto simp add: HandleMalloc_def size_t_cast_nonneg)
next
  let ?art = "case CurrentUnitData s of
                None \<Rightarrow> []
              | Some buf \<Rightarrow>
                  if SaveArtifacts (Options s)
                  then [(if ExactArtifactPath (Options s) \<noteq> []
                         then ExactArtifactPath (Options s)
                         else ArtifactPrefix (Options s) @ ''oom-''
                              @ Hash env (take (CurrentUnitSize s) buf),
                         take (CurrentUnitSize s) buf)]
                  else []"
  assume a: "RssLimitMb (Options s) \<noteq> 0 \<and> nat (RssLimitMb (Options s)) * 2 ^ 20 < Size"
  then have n: "\<not> Size div 2 ^ 20 < nat (RssLimitMb (Options s) mod int kSizeT)"
    using assms shift_above_limit [of "nat (RssLimitMb (Options s))" Size]
    by (simp add: size_t_cast_nonneg)
  have "\<exists>s1. HandleMalloc env Size s
                = Stopped (Exit (ErrorExitCode (Options s))) (PrintFinalStats env s1)
              \<and> files s1 = files s @ ?art"
    using a n
    apply (simp add: HandleMalloc_def split del: if_split)
    apply (rule exI)
    apply (rule conjI)
     apply (rule refl)
    apply (simp add: files_DumpCurrentUnit split: option.splits)
    done
  then obtain s1 where r: "HandleMalloc env Size s
                        = Stopped (Exit (ErrorExitCode (Options s))) (PrintFinalStats env s1)"
    and f: "files s1 = files s @ ?art"
    by blast
  from r show "stop_of (HandleMalloc env Size s) = Some (Exit (ErrorExitCode (Options s)))"
    by simp
  from r f show "\<exists>s1. state_of (HandleMalloc env Size s) = PrintFinalStats env s1
                      \<and> files s1 = files s @ ?art"
    by auto
  from r f show "files (state_of (HandleMalloc env Size s)) = files s @ ?art"
    by simp
qed

theorem HandleMalloc_policy_witness:
  "HandleMalloc sim_env 1048576 sim_fuzzer = Returned () sim_fuzzer
   \<and> stop_of (HandleMalloc sim_env 134217728 sim_fuzzer) = Some (Exit 1)
   \<and> files (state_of (HandleMalloc sim_env 134217728 sim_fuzzer)) = [(''./oom-'', [])]"
  using HandleMalloc_policy [of sim_fuzzer 1048576 sim_env]
    HandleMalloc_policy [of sim_fuzzer 134217728 sim_env]
  by (simp add: sim_env_def sim_hex_def)

text \<open>Claim C8 as stated fails: with \<^verbatim>\<open>SaveArtifacts\<close> unset, an allocation of 128 MB under a
  limit of 64 MB ends the process and no artifact is written.\<close>

theorem HandleMalloc_without_artifact:
  "stop_of (HandleMalloc sim_env 134217728
              (sim_fuzzer\<lparr>Options := sim_options\<lparr>SaveArtifacts := False\<rparr>\<rparr>)) = Some (Exit 1)
   \<and> files (state_of (HandleMalloc sim_env 134217728
                        (sim_fuzzer\<lparr>Options := sim_options\<lparr>SaveArtifacts := False\<rparr>\<rparr>))) = []"
  by (simp add: HandleMalloc_def files_DumpCurrentUnit kSizeT_def)

subsection \<open>Mutation length\<close>

text \<open>Claim C9. When \<^verbatim>\<open>MaxInputSize <= MaxMutationLen\<close> (and lengths are below \<open>2 ^ 63\<close>, so
  that no addition wraps), \<^verbatim>\<open>ComputeMutationLen\<close> returns \<^verbatim>\<open>MaxMutationLen\<close> when the two are
  equal, without drawing a random number. Otherwise it draws \<open>R\<close>; the cap starts at
  \<^verbatim>\<open>MaxInputSize\<close>, grows by 1 exactly when \<open>2 ^ 7\<close> divides \<open>R\<close>, then by \<open>10 + cap div 2\<close>
  exactly when \<open>2 ^ 15\<close> divides \<open>R\<close>, and the result is the minimum of the cap and
  \<^verbatim>\<open>MaxMutationLen\<close>. Without \<^verbatim>\<open>ExperimentalLenControl\<close> the cap of an iteration is
  \<^verbatim>\<open>MaxMutationLen\<close>; with it, it is the value of \<^verbatim>\<open>ComputeMutationLen\<close> on
  \<^verbatim>\<open>Corpus.MaxInputSize()\<close> and \<^verbatim>\<open>MaxMutationLen\<close>.\<close>

theorem ComputeMutationLen_control:
  assumes "MaxInputSize \<le> M" and "M < 2 ^ 63" and "Rand_Rand env x = (R, x')"
  shows "ComputeMutationLen env MaxInputSize M x =
           (if MaxInputSize = M then Returned M x
            else if R mod 2 ^ 7 \<noteq> 0 then Returned MaxInputSize x'
            else if R mod 2 ^ 15 \<noteq> 0 then Returned (MaxInputSize + 1) x'
            else Returned (min (MaxInputSize + 1 + (10 + (MaxInputSize + 1) div 2)) M) x')
       \<and> (\<forall>s. \<not> ExperimentalLenControl (Options s)
              \<longrightarrow> CurrentMaxMutationLen env s = Returned (MaxMutationLen s) s)
       \<and> (\<forall>s. ExperimentalLenControl (Options s)
              \<longrightarrow> value_of (CurrentMaxMutationLen env s) =
                    value_of (ComputeMutationLen env (get env Corpus_MaxInputSize (ext s))
                                (MaxMutationLen s) (ext s)))"
proof (intro conjI allI impI)
  show "ComputeMutationLen env MaxInputSize M x =
           (if MaxInputSize = M then Returned M x
            else if R mod 2 ^ 7 \<noteq> 0 then Returned MaxInputSize x'
            else if R mod 2 ^ 15 \<noteq> 0 then Returned (MaxInputSize + 1) x'
            else Returned (min (MaxInputSize + 1 + (10 + (MaxInputSize + 1) div 2)) M) x')"
  proof (cases "MaxInputSize = M")
    case True
    then show ?thesis by (simp add: ComputeMutationLen_def)
  next
    case False
    with assms have lt: "MaxInputSize < M" by simp
    have d: "R mod 2 ^ 7 = 0" if "R mod 2 ^ 15 = 0"
    proof -
      from that have "(2::nat) ^ 15 dvd R" by (simp add: dvd_eq_mod_eq_0)
      moreover have "(2::nat) ^ 7 dvd 2 ^ 15" by (simp add: le_imp_power_dvd)
      ultimately have "(2::nat) ^ 7 dvd R" by (rule dvd_trans [rotated])
      then show ?thesis by (simp add: dvd_eq_mod_eq_0)
    qed
    have b1: "MaxInputSize + 1 < kSizeT"
      using lt assms(2) by (simp add: kSizeT_def)
    have b2: "10 + (MaxInputSize + 1) div 2 < kSizeT"
      using lt assms(2) by (simp add: kSizeT_def)
    have b3: "MaxInputSize + 1 + (10 + (MaxInputSize + 1) div 2) < kSizeT"
      using lt assms(2) by (simp add: kSizeT_def)
    show ?thesis
      using False lt assms(3) d b1 b2 b3
      by (auto simp add: ComputeMutationLen_def Let_def min_def)
  qed
next
  fix s :: "'a fuzzer"
  assume "\<not> ExperimentalLenControl (Options s)"
  then show "CurrentMaxMutationLen env s = Returned (MaxMutationLen s) s"
    by (simp add: CurrentMaxMutationLen_def)
next
  fix s :: "'a fuzzer"
  assume "ExperimentalLenControl (Options s)"
  then show "value_of (CurrentMaxMutationLen env s) =
               value_of (ComputeMutationLen env (get env Corpus_MaxInputSize (ext s))
                           (MaxMutationLen s) (ext s))"
    by (simp add: CurrentMaxMutationLen_def split: outcome.splits)
qed

theorem ComputeMutationLen_control_witness:
  "ComputeMutationLen sim_env 1 4 sim_world = Returned 4 sim_world
   \<and> ComputeMutationLen sim_env 1 40 sim_world = Returned 13 sim_world
   \<and> CurrentMaxMutationLen sim_env sim_fuzzer = Returned 4 sim_fuzzer
   \<and> value_of (CurrentMaxMutationLen sim_env
                 (sim_fuzzer\<lparr>Options := sim_options\<lparr>ExperimentalLenControl := True\<rparr>\<rparr>)) = Some 4"
  using ComputeMutationLen_control [of 1 4 sim_env sim_world 32768 sim_world]
    ComputeMutationLen_control [of 1 40 sim_env sim_world 32768 sim_world]
  by (simp add: sim_env_def sim_get_def sim_fuzzer_def sim_options_def)

subsection \<open>The empty input\<close>

text \<open>Claim C10. \<^verbatim>\<open>RunOneCallback\<close> with \<^verbatim>\<open>Size = 0\<close> returns false at once and leaves the whole
  state as it is: the callback is not invoked, no feature is collected and the corpus is
  not touched, so the empty input is never added through \<^verbatim>\<open>RunOneCallback\<close>.\<close>

theorem RunOneCallback_empty:
  "RunOneCallback env [] idx MayDeleteFile II s = Returned False s"
  by (simp add: RunOneCallback_def)

subsection \<open>The divergence gate\<close>

lemma scan_OutputDiffVec_eq:
  "scan_OutputDiffVec vec (hz, hn, SS) =
     (hz \<or> 0 \<in> set vec, hn \<or> (\<exists>r\<in>set vec. r \<noteq> 0),
      SS @ concat (map (\<lambda>r. string_of_int r @ ''_'') vec))"
  by (induction vec arbitrary: hz hn SS) auto

text \<open>Claim C4. When the return codes in \<^verbatim>\<open>OutputDiffVec\<close> are all zero, or all non-zero,
  \<^verbatim>\<open>DumpUnitIfDiff\<close> returns with the state unchanged: no artifact, no fingerprint, no
  counter, and \<^verbatim>\<open>UnitHadOutputDiff\<close> as it was. So it writes an artifact or sets
  \<^verbatim>\<open>UnitHadOutputDiff\<close> only when the vector has a zero and a non-zero entry.\<close>

theorem DumpUnitIfDiff_gate:
  assumes "(\<forall>r\<in>set (OutputDiffVec s). r = 0) \<or> (\<forall>r\<in>set (OutputDiffVec s). r \<noteq> 0)"
  shows "DumpUnitIfDiff env Data s = Returned () s"
  using assms by (auto simp add: DumpUnitIfDiff_def scan_OutputDiffVec_eq)

theorem DumpUnitIfDiff_gate_witness:
  "DumpUnitIfDiff sim_env [1, 2, 3] sim_fuzzer = Returned () sim_fuzzer
   \<and> DumpUnitIfDiff sim_env [1, 2, 3] (sim_fuzzer\<lparr>OutputDiffVec := [1, 7]\<rparr>)
       = Returned () (sim_fuzzer\<lparr>OutputDiffVec := [1, 7]\<rparr>)"
  using DumpUnitIfDiff_gate [of sim_fuzzer sim_env "[1, 2, 3]"]
    DumpUnitIfDiff_gate [of "sim_fuzzer\<lparr>OutputDiffVec := [1, 7]\<rparr>" sim_env "[1, 2, 3]"]
  by (simp add: sim_fuzzer_def)

subsection \<open>The differential run\<close>

text \<open>The loop of \<^verbatim>\<open>RunOne\<close> that returns has run every callback in turn: \<open>states\<close> are the
  states between the runs and \<open>rets\<close> what the runs returned.\<close>

lemma RunOne_loop_trace:
  assumes "RunOne_loop env Data m II cbs i f fv s = Returned (f', fv') s'"
  shows "\<exists>rets states.
           length rets = length cbs \<and> length states = Suc (length cbs)
           \<and> states ! 0 = s \<and> states ! length cbs = s'
           \<and> (\<forall>k<length cbs.
                 RunOneCallback env Data (i + k) m II ((states ! k)\<lparr>CB := cbs ! k\<rparr>)
                   = Returned (rets ! k) (states ! Suc k))
           \<and> fv' = fv @ map of_bool rets
           \<and> f' = f + length (filter (\<lambda>b. b) rets)"
  using assms
proof (induction cbs arbitrary: i f fv s)
  case Nil
  then have "f' = f" "fv' = fv" "s' = s" by simp_all
  then show ?case
    by (intro exI [of _ "[]"] exI [of _ "[s]"]) simp
next
  case (Cons cb cbs)
  from Cons.prems obtain r s1 where
    r: "RunOneCallback env Data i m II (s\<lparr>CB := cb\<rparr>) = Returned r s1"
    and rest: "RunOne_loop env Data m II cbs (i + 1) (f + of_bool r) (fv @ [of_bool r]) s1
                 = Returned (f', fv') s'"
    by (auto split: outcome.splits)
  from Cons.IH [OF rest] obtain rets states where
    l: "length rets = length cbs" "length states = Suc (length cbs)"
    and e: "states ! 0 = s1" "states ! length cbs = s'"
    and t: "\<forall>k<length cbs.
              RunOneCallback env Data (i + 1 + k) m II ((states ! k)\<lparr>CB := cbs ! k\<rparr>)
                = Returned (rets ! k) (states ! Suc k)"
    and v: "fv' = (fv @ [of_bool r]) @ map of_bool rets"
           "f' = f + of_bool r + length (filter (\<lambda>b. b) rets)"
    by blast
  have "\<forall>k<length (cb # cbs).
          RunOneCallback env Data (i + k) m II (((s # states) ! k)\<lparr>CB := (cb # cbs) ! k\<rparr>)
            = Returned ((r # rets) ! k) ((s # states) ! Suc k)"
  proof (intro allI impI)
    fix k assume k: "k < length (cb # cbs)"
    show "RunOneCallback env Data (i + k) m II (((s # states) ! k)\<lparr>CB := (cb # cbs) ! k\<rparr>)
            = Returned ((r # rets) ! k) ((s # states) ! Suc k)"
    proof (cases k)
      case 0
      with r e show ?thesis by simp
    next
      case (Suc k')
      with k t show ?thesis by simp
    qed
  qed
  moreover have "fv' = fv @ map of_bool (r # rets)" using v by simp
  moreover have "f' = f + length (filter (\<lambda>b. b) (r # rets))" using v by simp
  ultimately show ?case
    using l e by (intro exI [of _ "r # rets"] exI [of _ "s # states"]) simp
qed

lemma DumpUnitIfDiff_Returned:
  assumes "DumpUnitIfDiff env Data s = Returned u s2"
  shows "ext s2 = ext s" and "FeatureSetTmp s2 = FeatureSetTmp s"
    and "\<not> UnitHadOutputDiff s2 \<Longrightarrow> \<not> UnitHadOutputDiff s"
  using assms
  by (auto simp add: DumpUnitIfDiff_def Let_def split: prod.splits option.splits if_splits)

lemma RunOne_decide_Returned:
  assumes "RunOne_decide env Data m CoverageBefore features fv s = Returned b s'"
    and "ask env (TPC_NewOutputDiff_change (OutputDiffVec s)) (ext s) = (new_diff, x1)"
    and "ask env (TPC_NewTraceDiff fv) x1 = (new_trace, x2)"
  shows "b = (0 < features \<or> new_diff)"
    and "\<not> UnitHadOutputDiff s \<Longrightarrow> UnitHadOutputDiff s' \<Longrightarrow> new_diff"
    and "ext s' = (if new_diff \<and> UnitHadOutputDiff s'
                   then effect env
                          (Corpus_AddToCorpus Data
                             ((get env TPC_GetTotalPCCoverage (ext s) + kSizeT - CoverageBefore)
                                mod kSizeT) m []) x2
                   else x2)"
proof -
  let ?s1 = "s\<lparr>NumberofValidCases :=
                   (if new_trace then NumberofValidCases s + 1 else NumberofValidCases s),
                 ext := x2, FeatureSetTmp := []\<rparr>"
  show "b = (0 < features \<or> new_diff)"
    using assms
    by (auto simp add: RunOne_decide_def Let_def split: outcome.splits if_splits)
  show "new_diff" if "\<not> UnitHadOutputDiff s" "UnitHadOutputDiff s'"
    using assms that
    by (auto simp add: RunOne_decide_def Let_def log_save_def split: outcome.splits if_splits)
  show "ext s' = (if new_diff \<and> UnitHadOutputDiff s'
                   then effect env
                          (Corpus_AddToCorpus Data
                             ((get env TPC_GetTotalPCCoverage (ext s) + kSizeT - CoverageBefore)
                                mod kSizeT) m []) x2
                   else x2)"
  proof (cases new_diff)
    case False
    with assms show ?thesis
      by (auto simp add: RunOne_decide_def Let_def log_save_def split: if_splits)
  next
    case True
    show ?thesis
    proof (cases "DumpUnitIfDiff env Data ?s1")
      case (Stopped e t)
      with assms True show ?thesis
        by (simp add: RunOne_decide_def Let_def)
    next
      case (Returned u s2)
      from DumpUnitIfDiff_Returned(1,2) [OF Returned]
      have "ext s2 = x2" "FeatureSetTmp s2 = []" by simp_all
      with assms True Returned show ?thesis
        by (auto simp add: RunOne_decide_def Let_def log_save_def split: if_splits)
    qed
  qed
qed

lemma Returned_state_of:
  assumes "value_of r = Some v"
  shows "r = Returned v (state_of r)"
  using assms by (cases r) simp_all

lemma RunOne_differential:
  assumes "DifferentialMode (Options s)"
    and "RunOne env Data m II s = Returned b s'"
  obtains features fv s1 where
    "RunOne_loop env Data m II (TPC_UC_callbacks env) 0 0 []
       (s\<lparr>UnitHadOutputDiff := False, ext := effect env TPC_ResetCoverage (ext s)\<rparr>)
       = Returned (features, fv) s1"
    and "RunOne_decide env Data m
           (get env TPC_GetTotalPCCoverage (effect env TPC_ResetCoverage (ext s)))
           features fv s1 = Returned b s'"
  using assms
  by (auto simp add: RunOne_def Let_def split: outcome.splits)

lemma exists_true_filter:
  "(filter (\<lambda>b. b) rets = []) = (\<forall>k<length rets. \<not> rets ! k)"
  by (simp add: filter_empty_conv all_set_conv_all_nth)

text \<open>Claim C7. In differential mode, a call of \<^verbatim>\<open>RunOne\<close> that returns has run
  \<^verbatim>\<open>RunOneCallback\<close> once for each of the \<open>N\<close> callbacks, in order, and it returns true if
  and only if one of these runs returned true or \<^verbatim>\<open>NewOutputDiff_change\<close>, asked after the
  last run, answered true. So without new features and without a new divergence it
  returns false.\<close>

theorem RunOne_interesting:
  assumes "DifferentialMode (Options s)"
    and "RunOne env Data m II s = Returned b s'"
  shows "\<exists>rets states.
           length rets = length (TPC_UC_callbacks env)
           \<and> length states = Suc (length (TPC_UC_callbacks env))
           \<and> states ! 0 = s\<lparr>UnitHadOutputDiff := False,
                              ext := effect env TPC_ResetCoverage (ext s)\<rparr>
           \<and> (\<forall>k<length (TPC_UC_callbacks env).
                 RunOneCallback env Data k m II ((states ! k)\<lparr>CB := TPC_UC_callbacks env ! k\<rparr>)
                   = Returned (rets ! k) (states ! Suc k))
           \<and> b = ((\<exists>k<length rets. rets ! k)
                  \<or> fst (ask env (TPC_NewOutputDiff_change (OutputDiffVec (states ! length rets)))
                           (ext (states ! length rets))))"
proof -
  from assms obtain features fv s1 where
    loop: "RunOne_loop env Data m II (TPC_UC_callbacks env) 0 0 []
             (s\<lparr>UnitHadOutputDiff := False, ext := effect env TPC_ResetCoverage (ext s)\<rparr>)
             = Returned (features, fv) s1"
    and dec: "RunOne_decide env Data m
                (get env TPC_GetTotalPCCoverage (effect env TPC_ResetCoverage (ext s)))
                features fv s1 = Returned b s'"
    by (rule RunOne_differential)
  from RunOne_loop_trace [OF loop] obtain rets states where
    l: "length rets = length (TPC_UC_callbacks env)"
       "length states = Suc (length (TPC_UC_callbacks env))"
    and e: "states ! 0 = s\<lparr>UnitHadOutputDiff := False,
                             ext := effect env TPC_ResetCoverage (ext s)\<rparr>"
           "states ! length (TPC_UC_callbacks env) = s1"
    and t: "\<forall>k<length (TPC_UC_callbacks env).
              RunOneCallback env Data (0 + k) m II ((states ! k)\<lparr>CB := TPC_UC_callbacks env ! k\<rparr>)
                = Returned (rets ! k) (states ! Suc k)"
    and f: "features = 0 + length (filter (\<lambda>b. b) rets)"
    by blast
  obtain new_diff x1 where a1:
    "ask env (TPC_NewOutputDiff_change (OutputDiffVec s1)) (ext s1) = (new_diff, x1)"
    by (cases "ask env (TPC_NewOutputDiff_change (OutputDiffVec s1)) (ext s1)")
  obtain new_trace x2 where a2: "ask env (TPC_NewTraceDiff fv) x1 = (new_trace, x2)"
    by (cases "ask env (TPC_NewTraceDiff fv) x1")
  from RunOne_decide_Returned(1) [OF dec a1 a2] f
  have "b = ((\<exists>k<length rets. rets ! k) \<or> new_diff)"
    by (simp add: exists_true_filter)
  with a1 l e have "b = ((\<exists>k<length rets. rets ! k)
                  \<or> fst (ask env (TPC_NewOutputDiff_change (OutputDiffVec (states ! length rets)))
                           (ext (states ! length rets))))"
    by simp
  with l e t show ?thesis
    by (intro exI [of _ rets] exI [of _ states]) simp
qed

text \<open>Claim C5. In differential mode, a call of \<^verbatim>\<open>RunOne\<close> that returns with
  \<^verbatim>\<open>UnitHadOutputDiff\<close> set was judged a new divergence, and its last action on the corpus
  is \<^verbatim>\<open>AddToCorpus\<close> of the input with \<^verbatim>\<open>NumCoverage\<close> features, the total PC coverage after
  the callbacks minus the one before them (in \<^verbatim>\<open>size_t\<close>), and an empty feature set. When it
  returns with \<^verbatim>\<open>UnitHadOutputDiff\<close> unset, nothing is done to the corpus after the
  callbacks: the collaborators are left as \<^verbatim>\<open>NewTraceDiff\<close> left them.\<close>

theorem RunOne_retention:
  assumes "DifferentialMode (Options s)"
    and "RunOne env Data m II s = Returned b s'"
  shows "\<exists>features fv s1 new_diff x1 new_trace x2.
           RunOne_loop env Data m II (TPC_UC_callbacks env) 0 0 []
             (s\<lparr>UnitHadOutputDiff := False, ext := effect env TPC_ResetCoverage (ext s)\<rparr>)
             = Returned (features, fv) s1
           \<and> ask env (TPC_NewOutputDiff_change (OutputDiffVec s1)) (ext s1) = (new_diff, x1)
           \<and> ask env (TPC_NewTraceDiff fv) x1 = (new_trace, x2)
           \<and> (UnitHadOutputDiff s' \<longrightarrow>
                new_diff
                \<and> ext s' = effect env
                     (Corpus_AddToCorpus Data
                        ((get env TPC_GetTotalPCCoverage (ext s1) + kSizeT
                          - get env TPC_GetTotalPCCoverage (effect env TPC_ResetCoverage (ext s)))
                         mod kSizeT) m []) x2)
           \<and> (\<not> UnitHadOutputDiff s' \<longrightarrow> ext s' = x2)"
proof -
  from assms obtain features fv s1 where
    loop: "RunOne_loop env Data m II (TPC_UC_callbacks env) 0 0 []
             (s\<lparr>UnitHadOutputDiff := False, ext := effect env TPC_ResetCoverage (ext s)\<rparr>)
             = Returned (features, fv) s1"
    and dec: "RunOne_decide env Data m
                (get env TPC_GetTotalPCCoverage (effect env TPC_ResetCoverage (ext s)))
                features fv s1 = Returned b s'"
    by (rule RunOne_differential)
  from RunOne_loop_frame [of env Data m II "TPC_UC_callbacks env" 0 0 "[]"
      "s\<lparr>UnitHadOutputDiff := False, ext := effect env TPC_ResetCoverage (ext s)\<rparr>"] loop
  have u: "\<not> UnitHadOutputDiff s1" by simp
  obtain new_diff x1 where a1:
    "ask env (TPC_NewOutputDiff_change (OutputDiffVec s1)) (ext s1) = (new_diff, x1)"
    by (cases "ask env (TPC_NewOutputDiff_change (OutputDiffVec s1)) (ext s1)")
  obtain new_trace x2 where a2: "ask env (TPC_NewTraceDiff fv) x1 = (new_trace, x2)"
    by (cases "ask env (TPC_NewTraceDiff fv) x1")
  from RunOne_decide_Returned(2) [OF dec a1 a2 u]
  have n: "UnitHadOutputDiff s' \<longrightarrow> new_diff" by simp
  from RunOne_decide_Returned(3) [OF dec a1 a2] n
  have "(UnitHadOutputDiff s' \<longrightarrow>
                new_diff
                \<and> ext s' = effect env
                     (Corpus_AddToCorpus Data
                        ((get env TPC_GetTotalPCCoverage (ext s1) + kSizeT
                          - get env TPC_GetTotalPCCoverage (effect env TPC_ResetCoverage (ext s)))
                         mod kSizeT) m []) x2)
           \<and> (\<not> UnitHadOutputDiff s' \<longrightarrow> ext s' = x2)"
    by simp
  with loop a1 a2 show ?thesis by blast
qed

subsection \<open>Runs of the small instance\<close>

lemmas sim_defs = sim_env_def sim_fuzzer_def sim_options_def sim_world_def sim_get_def
  sim_effect_def sim_ask_def sim_callback_def sim_Mutate_def sim_hex_def

lemmas run_defs = RunOne_def RunOne_decide_def RunOneCallback_def ExecuteCallback_def
  MallocFreeTracer_Start_def MallocFreeTracer_Stop_def LooseMemeq_def memcmp_eq_def
  PrintPulseAndReportSlowInput_def PrintStats_def duration_cast_seconds_def
  CheckExitOnSrcPosOrItem_def DumpUnitIfDiff_def DivergenceCoverage_def
  WriteUnitToFileWithPrefix_def WriteToFile_def prints_def memcpy_def kSizeT_def
  kMaxUnitSizeToPrint_def log_save_def string_of_int_def Let_def
  uint_to_uint8.simps Coverage_loop.simps dec.simps CrashOnOverwrittenData_def
  DumpCurrentUnit_def

lemmas mut_defs = MutateAndTestOne_def CurrentMaxMutationLen_def Mutate_do_while.simps
  CurrentUnit_def ReportNewCoverage_def PrintStatusForNewUnit_def WriteToOutputCorpus_def
  TryDetectingAMemoryLeak_def

lemma sim_RunOne:
  "value_of (RunOne sim_env [1, 2, 3] True None sim_fuzzer) = Some True"
  "UnitHadOutputDiff (state_of (RunOne sim_env [1, 2, 3] True None sim_fuzzer))"
  "sim_corpus (ext (state_of (RunOne sim_env [1, 2, 3] True None sim_fuzzer)))
     = [([1, 2, 3], 2, [])]"
  "files (state_of (RunOne sim_env [1, 2, 3] True None sim_fuzzer))
     = [(''./diff_0_1_010203'', [1, 2, 3])]"
  by (simp_all add: sim_defs run_defs)

lemma sim_RunOne_Returned:
  "RunOne sim_env [1, 2, 3] True None sim_fuzzer
     = Returned True (state_of (RunOne sim_env [1, 2, 3] True None sim_fuzzer))"
  by (rule Returned_state_of) (rule sim_RunOne(1))

theorem RunOne_interesting_witness:
  "\<exists>rets states.
     length rets = length (TPC_UC_callbacks sim_env)
     \<and> length states = Suc (length (TPC_UC_callbacks sim_env))
     \<and> states ! 0 = sim_fuzzer\<lparr>UnitHadOutputDiff := False,
                                ext := effect sim_env TPC_ResetCoverage (ext sim_fuzzer)\<rparr>
     \<and> (\<forall>k<length (TPC_UC_callbacks sim_env).
           RunOneCallback sim_env [1, 2, 3] k True None
             ((states ! k)\<lparr>CB := TPC_UC_callbacks sim_env ! k\<rparr>)
             = Returned (rets ! k) (states ! Suc k))
     \<and> True = ((\<exists>k<length rets. rets ! k)
               \<or> fst (ask sim_env (TPC_NewOutputDiff_change (OutputDiffVec (states ! length rets)))
                        (ext (states ! length rets))))"
  by (rule RunOne_interesting [OF _ sim_RunOne_Returned]) (simp add: sim_defs)

theorem RunOne_retention_witness:
  "UnitHadOutputDiff (state_of (RunOne sim_env [1, 2, 3] True None sim_fuzzer))
   \<and> sim_corpus (ext (state_of (RunOne sim_env [1, 2, 3] True None sim_fuzzer)))
       = [([1, 2, 3], 2, [])]
   \<and> (\<exists>features fv s1 new_diff x1 new_trace x2.
         RunOne_loop sim_env [1, 2, 3] True None (TPC_UC_callbacks sim_env) 0 0 []
           (sim_fuzzer\<lparr>UnitHadOutputDiff := False,
                        ext := effect sim_env TPC_ResetCoverage (ext sim_fuzzer)\<rparr>)
           = Returned (features, fv) s1
         \<and> ask sim_env (TPC_NewOutputDiff_change (OutputDiffVec s1)) (ext s1) = (new_diff, x1)
         \<and> ask sim_env (TPC_NewTraceDiff fv) x1 = (new_trace, x2)
         \<and> (UnitHadOutputDiff (state_of (RunOne sim_env [1, 2, 3] True None sim_fuzzer)) \<longrightarrow>
              new_diff
              \<and> ext (state_of (RunOne sim_env [1, 2, 3] True None sim_fuzzer))
                  = effect sim_env
                      (Corpus_AddToCorpus [1, 2, 3]
                         ((get sim_env TPC_GetTotalPCCoverage (ext s1) + kSizeT
                           - get sim_env TPC_GetTotalPCCoverage
                               (effect sim_env TPC_ResetCoverage (ext sim_fuzzer)))
                          mod kSizeT) True []) x2)
         \<and> (\<not> UnitHadOutputDiff (state_of (RunOne sim_env [1, 2, 3] True None sim_fuzzer)) \<longrightarrow>
              ext (state_of (RunOne sim_env [1, 2, 3] True None sim_fuzzer)) = x2))"
proof -
  have d: "DifferentialMode (Options sim_fuzzer)" by (simp add: sim_defs)
  from RunOne_retention [OF d sim_RunOne_Returned] sim_RunOne(2,3) show ?thesis
    by blast
qed

subsection \<open>The check of the const input\<close>




lemma take_memcpy_0 [simp]: "take (length Data) (memcpy buf 0 Data) = Data"
  by (simp add: memcpy_def)






subsection \<open>The mutation loop\<close>

text \<open>When the mutation engine returns a candidate of admissible size whose hash is
  already in \<^verbatim>\<open>hashMap\<close>, the \<^verbatim>\<open>do ... while\<close> loop counts it and ends with that candidate: the
  \<^verbatim>\<open>continue\<close> leads to the test \<^verbatim>\<open>NewSize > CurrentMaxMutationLen\<close>, which fails.\<close>

lemma Mutate_do_while_duplicate:
  assumes "CurrentUnitData s = Some buf"
    and "MD_Mutate env buf Size CurrentMax (ext s) = ((buf', NewSize), x)"
    and "NewSize \<le> length buf'" and "NewSize \<le> CurrentMax"
    and "hashMap s (ComputeSHA1 env (take NewSize buf')) \<noteq> None"
  shows "Mutate_do_while env Size CurrentMax s =
           Some (Returned (take Size buf, NewSize)
                   (s\<lparr>CurrentUnitData := Some buf', ext := x,
                      NumberOfDuplicate := NumberOfDuplicate s + 1\<rparr>))"
  using assms by (subst Mutate_do_while.simps) (simp add: Let_def)

lemma MutateAndTestOne_loop_numeral:
  "MutateAndTestOne_loop env (numeral k) II Size C s
     = MutateAndTestOne_loop env (Suc (pred_numeral k)) II Size C s"
  by (simp only: numeral_eq_Suc)

text \<open>Claim C1 fails on the code. The mutation engine returns the unit \<open>0x42\<close> twice. The
  second candidate is counted as a duplicate, and both callbacks are run on it again.\<close>

theorem MutateAndTestOne_executes_duplicate:
  "map_option
     (\<lambda>r. (sim_executed (ext (state_of r)), NumberOfDuplicate (state_of r), stop_of r))
     (MutateAndTestOne sim_env
        (sim_fuzzer\<lparr>ext := sim_world\<lparr>sim_mutations := [[0x42], [0x42]]\<rparr>\<rparr>))
   = Some ([(0, [0x42]), (1, [0x42]), (0, [0x42]), (1, [0x42])], 1, None)"
  by (auto simp add: sim_defs run_defs mut_defs MutateAndTestOne_loop_numeral)

subsection \<open>The divergence coverage\<close>

lemma le_bytes_eq:
  "le_bytes w = [ucast w, ucast (drop_bit 8 w), ucast (drop_bit 16 w), ucast (drop_bit 24 w),
                 ucast (drop_bit 32 w), ucast (drop_bit 40 w), ucast (drop_bit 48 w),
                 ucast (drop_bit 56 w)]"
  by (simp add: le_bytes_def upt_rec)

lemma length_le_bytes [simp]: "length (le_bytes w) = 8"
  by (simp add: le_bytes_def)

lemma length_concat_le_bytes [simp]: "length (concat (map le_bytes xs)) = 8 * length xs"
  by (induction xs) simp_all

lemma drop_concat_le_bytes:
  "drop (8 * a) (concat (map le_bytes xs)) = concat (map le_bytes (drop a xs))"
proof (induction xs arbitrary: a)
  case Nil
  show ?case by simp
next
  case (Cons x xs)
  show ?case
  proof (cases a)
    case 0
    then show ?thesis by simp
  next
    case (Suc a')
    then show ?thesis using Cons.IH [of a'] by simp
  qed
qed

lemma take_concat_le_bytes:
  "take (8 * c) (concat (map le_bytes xs)) = concat (map le_bytes (take c xs))"
proof (induction xs arbitrary: c)
  case Nil
  show ?case by simp
next
  case (Cons x xs)
  show ?case
  proof (cases c)
    case 0
    then show ?thesis by simp
  next
    case (Suc c')
    then show ?thesis using Cons.IH [of c'] by simp
  qed
qed

text \<open>Eight stores at \<open>p, \<dots>, p + 7\<close> replace the eight bytes after the first \<open>p\<close>.\<close>

lemma store8:
  assumes "length pre = p" and "8 \<le> length rest"
  shows "(pre @ rest)[p := b0, p + 1 := b1, p + 2 := b2, p + 3 := b3,
                      p + 4 := b4, p + 5 := b5, p + 6 := b6, p + 7 := b7]
         = pre @ [b0, b1, b2, b3, b4, b5, b6, b7] @ drop 8 rest"
proof -
  from assms(2) obtain r0 r1 r2 r3 r4 r5 r6 r7 rest'
    where r: "rest = r0 # r1 # r2 # r3 # r4 # r5 # r6 # r7 # rest'"
    by (auto simp add: numeral_eq_Suc Suc_le_length_iff)
  show ?thesis
    using assms(1) by (simp add: r list_update_append)
qed

lemma uint_to_uint8_invariant:
  assumes "i \<le> n" and "n = length source"
    and "dest = concat (map le_bytes (take i source)) @ rest"
    and "length rest = 8 * (n - i)"
  shows "uint_to_uint8 source dest n i = concat (map le_bytes source)"
  using assms
proof (induction source dest n i arbitrary: rest rule: uint_to_uint8.induct)
  case (1 source dest sz i)
  show ?case
  proof (cases "i < sz")
    case False
    with "1.prems" show ?thesis
      by (subst uint_to_uint8.simps) simp
  next
    case True
    let ?pre = "concat (map le_bytes (take i source))"
    have lp: "length ?pre = i * 8" using True "1.prems" by simp
    have lr: "8 \<le> length rest" using True "1.prems" by simp
    let ?dest' = "dest[i * 8 := ucast (source ! i),
                      i * 8 + 1 := ucast (drop_bit 8 (source ! i)),
                      i * 8 + 2 := ucast (drop_bit 16 (source ! i)),
                      i * 8 + 3 := ucast (drop_bit 24 (source ! i)),
                      i * 8 + 4 := ucast (drop_bit 32 (source ! i)),
                      i * 8 + 5 := ucast (drop_bit 40 (source ! i)),
                      i * 8 + 6 := ucast (drop_bit 48 (source ! i)),
                      i * 8 + 7 := ucast (drop_bit 56 (source ! i))]"
    have "?dest' = ?pre @ [ucast (source ! i), ucast (drop_bit 8 (source ! i)),
                           ucast (drop_bit 16 (source ! i)), ucast (drop_bit 24 (source ! i)),
                           ucast (drop_bit 32 (source ! i)), ucast (drop_bit 40 (source ! i)),
                           ucast (drop_bit 48 (source ! i)), ucast (drop_bit 56 (source ! i))]
                    @ drop 8 rest"
      unfolding "1.prems"(3) by (rule store8 [OF lp lr])
    also have "\<dots> = ?pre @ le_bytes (source ! i) @ drop 8 rest"
      by (simp only: le_bytes_eq)
    also have "\<dots> = concat (map le_bytes (take (Suc i) source)) @ drop 8 rest"
      using True "1.prems" by (simp add: take_Suc_conv_app_nth)
    finally have d: "?dest' = concat (map le_bytes (take (Suc i) source)) @ drop 8 rest" .
    have "uint_to_uint8 source ?dest' sz (Suc i) = concat (map le_bytes source)"
      using True "1.prems" by (intro "1.IH" [OF True _ _ d]) simp_all
    with True show ?thesis
      by (subst uint_to_uint8.simps) simp
  qed
qed

lemma uint_to_uint8_le_bytes:
  "uint_to_uint8 source (replicate (length source * 8) 0) (length source) 0
     = concat (map le_bytes source)"
  by (rule uint_to_uint8_invariant [where rest = "replicate (length source * 8) 0"]) simp_all




lemma sum_list_take_le:
  fixes M :: "nat list"
  shows "sum_list (take k M) \<le> sum_list M"
proof -
  have "sum_list M = sum_list (take k M) + sum_list (drop k M)"
    by (metis append_take_drop_id sum_list_append)
  then show ?thesis by simp
qed

lemma PC_prefix_Suc:
  assumes "i < length M"
  shows "PC_prefix M (Suc i) = PC_prefix M i + M ! i"
  using assms by (simp add: PC_prefix_def take_Suc_conv_app_nth)

lemma PC_prefix_le: "PC_prefix M i \<le> sum_list M"
  by (simp add: PC_prefix_def sum_list_take_le)

lemma PC_region_eq:
  assumes "i < length M"
  shows "PC_region PCs M i = take (M ! i) (drop (PC_prefix M i) PCs)"
  using assms by (simp add: PC_region_def PC_prefix_Suc)

lemma length_PC_region_le:
  assumes "i < length M"
  shows "length (PC_region PCs M i) \<le> M ! i"
  using assms by (simp add: PC_region_eq)

lemma Coverage_upto_Suc:
  "Coverage_upto PCs M vec d (Suc j) =
     Coverage_upto PCs M vec d j
     @ (if vec ! j \<noteq> 0 then concat (map le_bytes (PC_region PCs M (j + d))) else [])"
  by (simp add: Coverage_upto_def)

lemma length_Coverage_upto:
  assumes "j < length M"
  shows "length (Coverage_upto PCs M vec 1 j) \<le> 8 * PC_prefix M (Suc j)"
  using assms
proof (induction j)
  case 0
  show ?case by (simp add: Coverage_upto_def)
next
  case (Suc j)
  then have "length (Coverage_upto PCs M vec 1 j) \<le> 8 * PC_prefix M (Suc j)" by simp
  moreover have "length (PC_region PCs M (Suc j)) \<le> M ! Suc j"
    using Suc.prems by (rule length_PC_region_le)
  ultimately show ?case
    using Suc.prems by (simp add: Coverage_upto_Suc PC_prefix_Suc [of "Suc j"])
qed

text \<open>The second loop of \<^verbatim>\<open>DumpUnitIfDiff\<close> arrives at callback \<open>j\<close> with \<^verbatim>\<open>index\<close> at eight times
  the sum of the entries of \<^verbatim>\<open>ModuleNum\<close> before \<open>j\<close> and with the bytes of the earlier
  callbacks at the start of \<^verbatim>\<open>Coverage\<close>, zeros after them. It then adds entry \<open>j\<close> to
  \<^verbatim>\<open>index\<close> and copies the \<^verbatim>\<open>ModuleNum[j + 1]\<close> words found there: the region of entry
  \<open>j + 1\<close>.\<close>

lemma Coverage_loop_invariant:
  assumes "length M = Suc N" and "length vec = N" and "sum_list M \<le> length PCs"
    and "j \<le> N"
    and "index = 8 * sum_list (take j M)"
    and "Coverage = Coverage_upto PCs M vec 1 j
                    @ replicate (8 * length PCs - length (Coverage_upto PCs M vec 1 j)) 0"
    and "CovSize = length (Coverage_upto PCs M vec 1 j)"
  shows "\<exists>Cov'. Coverage_loop M vec (concat (map le_bytes PCs)) N j index Coverage CovSize
                  = Some (Cov', length (Coverage_upto PCs M vec 1 N))
               \<and> take (length (Coverage_upto PCs M vec 1 N)) Cov' = Coverage_upto PCs M vec 1 N"
  using assms(4-7)
proof (induction "N - j" arbitrary: j index Coverage CovSize)
  case 0
  then have "j = N" by simp
  with 0 show ?case
    by (subst Coverage_loop.simps) simp
next
  case (Suc d)
  then have j: "j < N" by simp
  let ?Mid = "concat (map le_bytes PCs)"
  let ?blob = "Coverage_upto PCs M vec 1 j"
  let ?index = "index + 8 * M ! j"
  have jM: "j < length M" "Suc j < length M" "j < length vec"
    using j assms(1,2) by simp_all
  have idx: "?index = 8 * PC_prefix M (Suc j)"
    using Suc.prems(2) jM by (simp add: PC_prefix_def take_Suc_conv_app_nth)
  have idx': "?index = 8 * sum_list (take (Suc j) M)"
    using idx by (simp add: PC_prefix_def)
  have d: "d = N - Suc j" using Suc.hyps(2) by simp
  have jn: "Suc j \<le> N" using j by simp
  show ?case
  proof (cases "vec ! j = 0")
    case True
    have c: "Coverage = Coverage_upto PCs M vec 1 (Suc j)
                        @ replicate (8 * length PCs - length (Coverage_upto PCs M vec 1 (Suc j))) 0"
      using Suc.prems(3) True by (simp add: Coverage_upto_Suc)
    have s: "CovSize = length (Coverage_upto PCs M vec 1 (Suc j))"
      using Suc.prems(4) True by (simp add: Coverage_upto_Suc)
    from Suc.hyps(1) [OF d jn idx' c s] obtain Cov' where
      "Coverage_loop M vec ?Mid N (Suc j) ?index Coverage CovSize
         = Some (Cov', length (Coverage_upto PCs M vec 1 N))
       \<and> take (length (Coverage_upto PCs M vec 1 N)) Cov' = Coverage_upto PCs M vec 1 N"
      by blast
    then show ?thesis
      using j jM True by (subst Coverage_loop.simps) (simp add: Let_def)
  next
    case False
    let ?n = "8 * M ! (j + 1)"
    let ?region = "concat (map le_bytes (PC_region PCs M (Suc j)))"
    have up: "PC_prefix M (Suc j) + M ! Suc j \<le> length PCs"
      using PC_prefix_le [of M "Suc (Suc j)"] assms(3) jM
      by (simp add: PC_prefix_Suc [of "Suc j"])
    have b1: "?index + ?n \<le> length ?Mid"
      using up idx by simp
    have lb: "length ?blob \<le> 8 * PC_prefix M (Suc j)"
      using jM by (intro length_Coverage_upto) simp
    have b2: "CovSize + ?n \<le> length Coverage"
      using Suc.prems(3,4) lb up by simp
    have src: "take ?n (drop ?index ?Mid) = ?region"
      using jM by (simp add: idx drop_concat_le_bytes take_concat_le_bytes PC_region_eq)
    have lr: "length ?region = ?n"
      using jM up by (simp add: PC_region_eq)
    have c: "memcpy Coverage CovSize (take ?n (drop ?index ?Mid))
               = Coverage_upto PCs M vec 1 (Suc j)
                 @ replicate (8 * length PCs - length (Coverage_upto PCs M vec 1 (Suc j))) 0"
      unfolding src using False lr Suc.prems(3,4)
      by (simp add: memcpy_def Coverage_upto_Suc)
    have s: "CovSize + ?n = length (Coverage_upto PCs M vec 1 (Suc j))"
      using False lr Suc.prems(4) by (simp add: Coverage_upto_Suc)
    from Suc.hyps(1) [OF d jn idx' c s] obtain Cov' where
      "Coverage_loop M vec ?Mid N (Suc j) ?index
         (memcpy Coverage CovSize (take ?n (drop ?index ?Mid))) (CovSize + ?n)
         = Some (Cov', length (Coverage_upto PCs M vec 1 N))
       \<and> take (length (Coverage_upto PCs M vec 1 N)) Cov' = Coverage_upto PCs M vec 1 N"
      by blast
    then show ?thesis
      using j jM False b1 b2 by (subst Coverage_loop.simps) (simp add: Let_def)
  qed
qed

lemma DivergenceCoverage_correct:
  assumes "length (OutputDiffVec s) = length (TPC_UC_callbacks env)"
    and "length (TPC_ModuleNum env (ext s)) = Suc (length (TPC_UC_callbacks env))"
    and "sum_list (TPC_ModuleNum env (ext s)) \<le> length (TPC_PCs env (ext s))"
  shows "DivergenceCoverage env s =
           Some (DivergenceCoverage_shifted (TPC_PCs env (ext s)) (TPC_ModuleNum env (ext s))
                   (OutputDiffVec s))"
proof -
  let ?PCs = "TPC_PCs env (ext s)"
  let ?M = "TPC_ModuleNum env (ext s)"
  let ?N = "length (TPC_UC_callbacks env)"
  have "\<exists>Cov'. Coverage_loop ?M (OutputDiffVec s) (concat (map le_bytes ?PCs)) ?N 0 0
                  (replicate (length ?PCs * 8) 0) 0
                  = Some (Cov', length (Coverage_upto ?PCs ?M (OutputDiffVec s) 1 ?N))
               \<and> take (length (Coverage_upto ?PCs ?M (OutputDiffVec s) 1 ?N)) Cov'
                   = Coverage_upto ?PCs ?M (OutputDiffVec s) 1 ?N"
    by (rule Coverage_loop_invariant [OF assms(2) assms(1) assms(3)])
      (simp_all add: Coverage_upto_def mult.commute)
  then show ?thesis
    using assms(1)
    by (auto simp add: DivergenceCoverage_def Let_def uint_to_uint8_le_bytes
        DivergenceCoverage_shifted_def)
qed

lemma DumpUnitIfDiff_divergence:
  assumes "0 \<in> set (OutputDiffVec s)" and "\<exists>r\<in>set (OutputDiffVec s). r \<noteq> 0"
    and "DivergenceCoverage env s = Some Cov"
  shows "DumpUnitIfDiff env Data s =
           (if CoverageHash s (Sha1ToString env (ComputeSHA1 env Cov)) \<noteq> None
            then Returned () (s\<lparr>Duplicate := Duplicate s + 1\<rparr>)
            else Returned ()
                   (WriteUnitToFileWithPrefix env Data
                      (''diff_'' @ concat (map (\<lambda>r. string_of_int r @ ''_'') (OutputDiffVec s)))
                      (s\<lparr>CoverageHash :=
                           (CoverageHash s)(Sha1ToString env (ComputeSHA1 env Cov) \<mapsto> True),
                         UnitHadOutputDiff := True,
                         NumberOfDiffUnitsAdded := NumberOfDiffUnitsAdded s + 1\<rparr>)))"
  using assms by (simp add: DumpUnitIfDiff_def scan_OutputDiffVec_eq Let_def)

text \<open>When the first entry of the table is 0 and entry \<open>i + 1\<close> is the count of callback
  \<open>i\<close>, the shifted bytes are the bytes of the callbacks' own regions.\<close>

lemma PC_region_leading_zero: "PC_region PCs (0 # counts) (Suc i) = PC_region PCs counts i"
  by (simp add: PC_region_def PC_prefix_def)

lemma DivergenceCoverage_shifted_leading_zero:
  "DivergenceCoverage_shifted PCs (0 # counts) vec = DivergenceCoverage_spec PCs counts vec"
  by (simp add: DivergenceCoverage_shifted_def DivergenceCoverage_spec_def Coverage_upto_def
      PC_region_leading_zero cong: if_cong)





subsection \<open>One artifact for each fingerprint\<close>

lemma DumpUnitIfDiff_report:
  assumes "DumpUnitIfDiff env Data s = Returned () s'"
    and "DivergenceCoverage env s = Some Cov"
  shows "length (drop (length (files s)) (files s')) \<le> 1"
    and "drop (length (files s)) (files s') \<noteq> []
         \<Longrightarrow> CoverageHash s (Sha1ToString env (ComputeSHA1 env Cov)) = None
             \<and> CoverageHash s' (Sha1ToString env (ComputeSHA1 env Cov)) \<noteq> None"
    and "CoverageHash s k \<noteq> None \<Longrightarrow> CoverageHash s' k \<noteq> None"
  using assms
  by (auto simp add: DumpUnitIfDiff_def scan_OutputDiffVec_eq Let_def
      files_WriteUnitToFileWithPrefix split: if_splits)

lemma artifacts_of_snoc:
  "artifacts_of fp (h @ [(fp', W)]) = artifacts_of fp h @ (if fp' = fp then W else [])"
  by (simp add: artifacts_of_def)

lemma history_invariant:
  assumes "history env s0 h s"
  shows "length (artifacts_of fp h) \<le> 1
         \<and> (artifacts_of fp h \<noteq> [] \<longrightarrow> CoverageHash s fp \<noteq> None)"
  using assms
proof (induction rule: history.induct)
  case start
  show ?case by (simp add: artifacts_of_def)
next
  case (other h s s')
  then show ?case by simp
next
  case (dump h s Data s' Cov)
  let ?fp' = "Sha1ToString env (ComputeSHA1 env Cov)"
  let ?W = "drop (length (files s)) (files s')"
  note r = DumpUnitIfDiff_report [OF dump.hyps(2,3)]
  show ?case
  proof (cases "?fp' = fp \<and> ?W \<noteq> []")
    case True
    with r(2) have "CoverageHash s fp = None" "CoverageHash s' fp \<noteq> None" by auto
    with dump.IH have "artifacts_of fp h = []" by auto
    with True r(1) \<open>CoverageHash s' fp \<noteq> None\<close> show ?thesis
      by (simp add: artifacts_of_snoc)
  next
    case False
    then have "artifacts_of fp (h @ [(?fp', ?W)]) = artifacts_of fp h"
      by (auto simp add: artifacts_of_snoc)
    with dump.IH r(3) [of fp] show ?thesis by auto
  qed
qed

text \<open>Claim C2, as amended. Over any history of the process, at most one artifact is
  written by \<^verbatim>\<open>DumpUnitIfDiff\<close> for each fingerprint. On a divergence whose fingerprint is
  already in \<^verbatim>\<open>CoverageHash\<close>, \<^verbatim>\<open>Duplicate\<close> is incremented and nothing else changes. On an
  unseen fingerprint it is inserted, \<^verbatim>\<open>UnitHadOutputDiff\<close> is set and
  \<^verbatim>\<open>NumberOfDiffUnitsAdded\<close> is incremented; an artifact is written only when
  \<^verbatim>\<open>SaveArtifacts\<close> is set, and then exactly one, with the input as its contents, under
  \<^verbatim>\<open>ExactArtifactPath\<close> when that is given and else under the artifact prefix followed by
  \<open>diff_\<close>, the return codes each followed by \<open>_\<close>, and the hash of the input.\<close>

theorem DumpUnitIfDiff_fingerprints:
  assumes "history env s0 h s"
    and "0 \<in> set (OutputDiffVec s)" and "\<exists>r\<in>set (OutputDiffVec s). r \<noteq> 0"
    and "DivergenceCoverage env s = Some Cov"
  shows "(\<forall>fp. length (artifacts_of fp h) \<le> 1)
       \<and> (CoverageHash s (Sha1ToString env (ComputeSHA1 env Cov)) \<noteq> None \<longrightarrow>
            DumpUnitIfDiff env Data s = Returned () (s\<lparr>Duplicate := Duplicate s + 1\<rparr>))
       \<and> (CoverageHash s (Sha1ToString env (ComputeSHA1 env Cov)) = None \<longrightarrow>
            (\<exists>s'. DumpUnitIfDiff env Data s = Returned () s'
                \<and> CoverageHash s' =
                    (CoverageHash s)(Sha1ToString env (ComputeSHA1 env Cov) \<mapsto> True)
                \<and> UnitHadOutputDiff s'
                \<and> NumberOfDiffUnitsAdded s' = NumberOfDiffUnitsAdded s + 1
                \<and> Duplicate s' = Duplicate s
                \<and> files s' =
                    files s @ (if SaveArtifacts (Options s)
                               then [(if ExactArtifactPath (Options s) \<noteq> []
                                      then ExactArtifactPath (Options s)
                                      else ArtifactPrefix (Options s) @ ''diff_''
                                           @ concat (map (\<lambda>r. string_of_int r @ ''_'')
                                                       (OutputDiffVec s))
                                           @ Hash env Data,
                                      Data)]
                               else [])))"
proof (intro conjI allI impI)
  fix fp
  from history_invariant [OF assms(1)] show "length (artifacts_of fp h) \<le> 1" by simp
next
  assume "CoverageHash s (Sha1ToString env (ComputeSHA1 env Cov)) \<noteq> None"
  then show "DumpUnitIfDiff env Data s = Returned () (s\<lparr>Duplicate := Duplicate s + 1\<rparr>)"
    by (simp add: DumpUnitIfDiff_divergence [OF assms(2-4)])
next
  assume "CoverageHash s (Sha1ToString env (ComputeSHA1 env Cov)) = None"
  then show "\<exists>s'. DumpUnitIfDiff env Data s = Returned () s'
                \<and> CoverageHash s' =
                    (CoverageHash s)(Sha1ToString env (ComputeSHA1 env Cov) \<mapsto> True)
                \<and> UnitHadOutputDiff s'
                \<and> NumberOfDiffUnitsAdded s' = NumberOfDiffUnitsAdded s + 1
                \<and> Duplicate s' = Duplicate s
                \<and> files s' =
                    files s @ (if SaveArtifacts (Options s)
                               then [(if ExactArtifactPath (Options s) \<noteq> []
                                      then ExactArtifactPath (Options s)
                                      else ArtifactPrefix (Options s) @ ''diff_''
                                           @ concat (map (\<lambda>r. string_of_int r @ ''_'')
                                                       (OutputDiffVec s))
                                           @ Hash env Data,
                                      Data)]
                               else [])"
    by (simp add: DumpUnitIfDiff_divergence [OF assms(2-4)] files_WriteUnitToFileWithPrefix)
qed

lemma DivergenceCoverage_cong:
  assumes "ext s' = ext s" and "OutputDiffVec s' = OutputDiffVec s"
  shows "DivergenceCoverage env s' = DivergenceCoverage env s"
  using assms by (simp add: DivergenceCoverage_def)

lemma sim_DivergenceCoverage:
  "DivergenceCoverage sim_env (sim_fuzzer\<lparr>OutputDiffVec := [0, 1]\<rparr>)
     = Some [0x44, 0, 0, 0, 0, 0, 0, 0]"
  by (simp add: sim_defs DivergenceCoverage_correct DivergenceCoverage_shifted_def
      Coverage_upto_def PC_region_def PC_prefix_def le_bytes_eq upt_rec)

lemma sim_DumpUnitIfDiff:
  "DumpUnitIfDiff sim_env [1, 2, 3] (sim_fuzzer\<lparr>OutputDiffVec := [0, 1]\<rparr>)
     = Returned () (state_of (DumpUnitIfDiff sim_env [1, 2, 3]
                                (sim_fuzzer\<lparr>OutputDiffVec := [0, 1]\<rparr>)))"
  "files (state_of (DumpUnitIfDiff sim_env [1, 2, 3] (sim_fuzzer\<lparr>OutputDiffVec := [0, 1]\<rparr>)))
     = [(''./diff_0_1_010203'', [1, 2, 3])]"
  "CoverageHash (state_of (DumpUnitIfDiff sim_env [1, 2, 3]
                             (sim_fuzzer\<lparr>OutputDiffVec := [0, 1]\<rparr>)))
     ''4400000000000000'' = Some True"
  "OutputDiffVec (state_of (DumpUnitIfDiff sim_env [1, 2, 3]
                              (sim_fuzzer\<lparr>OutputDiffVec := [0, 1]\<rparr>))) = [0, 1]"
  "ext (state_of (DumpUnitIfDiff sim_env [1, 2, 3] (sim_fuzzer\<lparr>OutputDiffVec := [0, 1]\<rparr>)))
     = sim_world"
  by (simp_all add: DumpUnitIfDiff_divergence [OF _ _ sim_DivergenceCoverage]
      files_WriteUnitToFileWithPrefix)
    (simp_all add: sim_defs string_of_int_def dec.simps)

theorem DumpUnitIfDiff_fingerprints_witness:
  "length (artifacts_of ''4400000000000000''
             [(''4400000000000000'', [(''./diff_0_1_010203'', [1, 2, 3])])]) \<le> 1
   \<and> DumpUnitIfDiff sim_env [4, 5]
        (state_of (DumpUnitIfDiff sim_env [1, 2, 3] (sim_fuzzer\<lparr>OutputDiffVec := [0, 1]\<rparr>)))
     = Returned ()
         ((state_of (DumpUnitIfDiff sim_env [1, 2, 3] (sim_fuzzer\<lparr>OutputDiffVec := [0, 1]\<rparr>)))
            \<lparr>Duplicate :=
               Duplicate (state_of (DumpUnitIfDiff sim_env [1, 2, 3]
                                      (sim_fuzzer\<lparr>OutputDiffVec := [0, 1]\<rparr>))) + 1\<rparr>)"
proof -
  let ?s0 = "sim_fuzzer\<lparr>OutputDiffVec := [0, 1]\<rparr>"
  let ?s1 = "state_of (DumpUnitIfDiff sim_env [1, 2, 3] ?s0)"
  have "history sim_env ?s0
          ([] @ [(Sha1ToString sim_env (ComputeSHA1 sim_env [0x44, 0, 0, 0, 0, 0, 0, 0]),
                  drop (length (files ?s0)) (files ?s1))]) ?s1"
    by (rule history.dump [OF history.start sim_DumpUnitIfDiff(1) sim_DivergenceCoverage])
  then have h: "history sim_env ?s0
                  [(''4400000000000000'', [(''./diff_0_1_010203'', [1, 2, 3])])] ?s1"
    by (simp add: sim_DumpUnitIfDiff(2)) (simp add: sim_defs)
  have c: "DivergenceCoverage sim_env ?s1 = Some [0x44, 0, 0, 0, 0, 0, 0, 0]"
    using DivergenceCoverage_cong [of ?s1 ?s0 sim_env] sim_DumpUnitIfDiff(4,5)
      sim_DivergenceCoverage
    by (simp add: sim_defs)
  have z: "0 \<in> set (OutputDiffVec ?s1)" "\<exists>r\<in>set (OutputDiffVec ?s1). r \<noteq> 0"
    by (simp_all add: sim_DumpUnitIfDiff(4))
  have k: "CoverageHash ?s1 (Sha1ToString sim_env (ComputeSHA1 sim_env [0x44, 0, 0, 0, 0, 0, 0, 0]))
             \<noteq> None"
    using sim_DumpUnitIfDiff(3) by (simp add: sim_defs)
  from DumpUnitIfDiff_fingerprints [OF h z c, of "[4, 5]"] k show ?thesis
    by blast
qed

text \<open>Claim C2 as stated fails: with \<^verbatim>\<open>SaveArtifacts\<close> unset, a divergence with an unseen
  fingerprint is admitted and counted, and no artifact is written.\<close>

theorem DumpUnitIfDiff_without_artifact:
  "UnitHadOutputDiff
     (state_of (DumpUnitIfDiff sim_env [1, 2, 3]
                  (sim_fuzzer\<lparr>OutputDiffVec := [0, 1],
                               Options := sim_options\<lparr>SaveArtifacts := False\<rparr>\<rparr>)))
   \<and> NumberOfDiffUnitsAdded
       (state_of (DumpUnitIfDiff sim_env [1, 2, 3]
                    (sim_fuzzer\<lparr>OutputDiffVec := [0, 1],
                                 Options := sim_options\<lparr>SaveArtifacts := False\<rparr>\<rparr>))) = 1
   \<and> files
       (state_of (DumpUnitIfDiff sim_env [1, 2, 3]
                    (sim_fuzzer\<lparr>OutputDiffVec := [0, 1],
                                 Options := sim_options\<lparr>SaveArtifacts := False\<rparr>\<rparr>))) = []"
proof -
  have c: "DivergenceCoverage sim_env
             (sim_fuzzer\<lparr>OutputDiffVec := [0, 1],
                          Options := sim_options\<lparr>SaveArtifacts := False\<rparr>\<rparr>)
           = Some [0x44, 0, 0, 0, 0, 0, 0, 0]"
    using DivergenceCoverage_cong
        [of "sim_fuzzer\<lparr>OutputDiffVec := [0, 1],
                          Options := sim_options\<lparr>SaveArtifacts := False\<rparr>\<rparr>"
          "sim_fuzzer\<lparr>OutputDiffVec := [0, 1]\<rparr>" sim_env]
      sim_DivergenceCoverage
    by simp
  show ?thesis
    by (simp add: DumpUnitIfDiff_divergence [OF _ _ c] files_WriteUnitToFileWithPrefix)
      (simp add: sim_defs)
qed

end
